(* ===== verification/Prelude.thy ===== *)
theory Prelude
  imports Complex_Main
begin

text \<open>
  Shared vocabulary of the development. Python's \<open>float\<close> is modelled by \<open>real\<close>
  (exact arithmetic, no rounding) and Python's \<open>int\<close> by \<open>int\<close>. A raised exception
  is the left summand of \<open>py_error + 'a\<close>; \<open>py_bind\<close> propagates it the way an uncaught
  exception leaves the rest of a Python function unexecuted, and \<open>py_div\<close> is Python's
  float division \<open>/\<close>, which raises \<open>ZeroDivisionError\<close> on a zero divisor.
  The collection \<open>geom_simps\<close> gathers the evaluation rules of the geometric operations
  and \<open>order_simps\<close> those of the order-pricing script.
\<close>

type_synonym py_float = real
type_synonym py_int = int

datatype py_error = ZeroDivisionError

definition py_bind :: "py_error + 'a \<Rightarrow> ('a \<Rightarrow> py_error + 'b) \<Rightarrow> py_error + 'b" where
  "py_bind m f = (case m of Inl e \<Rightarrow> Inl e | Inr a \<Rightarrow> f a)"

definition py_div :: "py_float \<Rightarrow> py_float \<Rightarrow> py_error + py_float" where
  "py_div a b = (if b = 0 then Inl ZeroDivisionError else Inr (a / b))"

named_theorems geom_simps "evaluation rules of the geometric primitives"
named_theorems order_simps "evaluation rules of the order-pricing script"

lemma py_bind_Inr [simp]: "py_bind (Inr a) f = f a"
  by (simp add: py_bind_def)

lemma py_bind_Inl [simp]: "py_bind (Inl e) f = Inl e"
  by (simp add: py_bind_def)

lemma py_div_nonzero [simp]: "b \<noteq> 0 \<Longrightarrow> py_div a b = Inr (a / b)"
  by (simp add: py_div_def)

lemma py_div_zero [simp]: "py_div a 0 = Inl ZeroDivisionError"
  by (simp add: py_div_def)

lemma py_bind_eq_Inr_iff:
  "py_bind m f = Inr b \<longleftrightarrow> (\<exists>a. m = Inr a \<and> f a = Inr b)"
  by (cases m) simp_all

text \<open>Facts on real numbers that several components use.\<close>

lemma sqrt_sum_squares_eq_0_iff [simp]:
  "sqrt (a\<^sup>2 + b\<^sup>2) = 0 \<longleftrightarrow> a = 0 \<and> b = (0::real)"
  by (simp add: add_nonneg_eq_0_iff)

lemma sqrt_sum_squares_nonneg [simp]: "0 \<le> sqrt (a\<^sup>2 + (b::real)\<^sup>2)"
  by simp

lemma sqrt_square_0_abs [simp]:
  "sqrt (a\<^sup>2 + 0\<^sup>2) = \<bar>a::real\<bar>" "sqrt (0\<^sup>2 + a\<^sup>2) = \<bar>a::real\<bar>"
  by simp_all

lemma max_minus_min_abs [simp]: "max a b - min a b = \<bar>a - (b::real)\<bar>"
  by (simp add: max_def min_def)

lemma min_plus_max_real [simp]: "min a b + max a b = a + (b::real)"
  by (simp add: max_def min_def)

lemma min_plus_abs_diff: "min a b + \<bar>a - b\<bar> = max a (b::real)"
  by (simp add: min_def max_def)

lemma min_le_max_real [simp]: "min a b \<le> max a (b::real)"
  by simp

end
