(* ===== verification/Points.thy ===== *)
theory Points
  imports Prelude
begin

text \<open>
  The class \<open>Point\<close> of \<open>src/classLine.py\<close>: two float coordinates. The code
  never mutates a point after construction, so a point is a value: the datatype's
  constructor is the class's constructor and its selectors are the attributes \<open>x\<close>
  and \<open>y\<close> (named \<open>px\<close>, \<open>py\<close> here, as \<open>x\<close> and \<open>y\<close> are the usual names of
  variables). The affine combination \<open>point_lerp\<close> is the abstract description of a
  point on a segment used to specify \<open>discretize_line\<close>.
\<close>

datatype point = Point (px: py_float) (py: py_float)

definition point_lerp :: "point \<Rightarrow> point \<Rightarrow> real \<Rightarrow> point" where
  "point_lerp a b t = Point (px a + t * (px b - px a)) (py a + t * (py b - py a))"

lemma point_eq_iff: "p = q \<longleftrightarrow> px p = px q \<and> py p = py q"
  by (cases p; cases q) simp

lemma point_lerp_0 [simp]: "point_lerp a b 0 = a"
  by (simp add: point_lerp_def)

lemma point_lerp_1 [simp]: "point_lerp a b 1 = b"
  by (simp add: point_lerp_def)

end
