(* ===== verification/Lines.thy ===== *)
theory Lines
  imports Points
begin

text \<open>
  The class \<open>Line\<close> of \<open>src/classLine.py\<close> (lines 13--55): a directed segment with
  the operations \<open>compute_length\<close>, \<open>compute_slope\<close>, \<open>compute_horizontal_cross\<close>,
  \<open>compute_vertical_cross\<close> and \<open>discretize_line\<close>. Every division by a value that
  the code computes goes through \<open>py_div\<close>, so a \<open>ZeroDivisionError\<close> of the
  Python code is an \<open>Inl\<close> result here; the \<open>None\<close> the code returns for an
  undefined slope or crossing is \<open>Inr None\<close>.
\<close>

datatype line = Line (line_start: point) (line_end: point)

abbreviation line_dx :: "line \<Rightarrow> real" where
  "line_dx l \<equiv> px (line_end l) - px (line_start l)"

abbreviation line_dy :: "line \<Rightarrow> real" where
  "line_dy l \<equiv> py (line_end l) - py (line_start l)"

text \<open>\<open>((end.x - start.x) ** 2 + (end.y - start.y) ** 2) ** 0.5\<close>.\<close>

definition compute_length :: "line \<Rightarrow> py_float" where
  "compute_length l = sqrt ((line_dx l)\<^sup>2 + (line_dy l)\<^sup>2)"

text \<open>
  \<open>math.degrees(math.atan(dy / dx))\<close>, with \<open>None\<close> for a vertical line;
  \<open>math.degrees\<close> multiplies by \<open>180 / pi\<close>.
\<close>

definition compute_slope :: "line \<Rightarrow> py_error + py_float option" where
  "compute_slope l =
     (if px (line_start l) = px (line_end l) then Inr None
      else py_bind (py_div (line_dy l) (line_dx l))
             (\<lambda>q. Inr (Some (arctan q * (180 / pi)))))"

definition compute_horizontal_cross :: "line \<Rightarrow> py_error + py_float option" where
  "compute_horizontal_cross l =
     py_bind (compute_slope l) (\<lambda>slope.
       case slope of
         None \<Rightarrow> Inr None
       | Some s \<Rightarrow>
           if 0 < py (line_start l) * py (line_end l) then Inr None
           else py_bind (py_div (- py (line_start l)) s)
                  (\<lambda>q. Inr (Some (q + px (line_start l)))))"

definition compute_vertical_cross :: "line \<Rightarrow> py_error + py_float option" where
  "compute_vertical_cross l =
     py_bind (compute_slope l) (\<lambda>slope.
       case slope of
         None \<Rightarrow> Inr None
       | Some s \<Rightarrow>
           if 0 < px (line_start l) * px (line_end l) then Inr None
           else py_bind (py_div (- px (line_start l)) s)
                  (\<lambda>q. Inr (Some (q + py (line_start l)))))"

text \<open>
  \<open>discretize_line(n)\<close>: the two endpoints when \<open>n < 2\<close>, otherwise the
  comprehension over \<open>range(n)\<close> with the steps \<open>dx / (n - 1)\<close> and
  \<open>dy / (n - 1)\<close>.
\<close>

definition discretize_line :: "line \<Rightarrow> py_int \<Rightarrow> py_error + point list" where
  "discretize_line l n =
     (if n < 2 then Inr [line_start l, line_end l]
      else py_bind (py_div (line_dx l) (of_int (n - 1))) (\<lambda>step_x.
           py_bind (py_div (line_dy l) (of_int (n - 1))) (\<lambda>step_y.
             Inr (map (\<lambda>i. Point (px (line_start l) + real i * step_x)
                                 (py (line_start l) + real i * step_y))
                      [0..<nat n]))))"

text \<open>
  The intended crossings, as the spec states them (section 4.2): the point where the line
  through the segment meets an axis, computed from the ratio \<open>dy / dx\<close> rather than
  from a slope in degrees. \<open>None\<close> where the line is parallel to that axis.
\<close>

definition x_axis_intercept :: "line \<Rightarrow> real option" where
  "x_axis_intercept l =
     (if line_dy l = 0 then None
      else Some (px (line_start l) - py (line_start l) * line_dx l / line_dy l))"

definition y_axis_intercept :: "line \<Rightarrow> real option" where
  "y_axis_intercept l =
     (if line_dx l = 0 then None
      else Some (py (line_start l) - px (line_start l) * line_dy l / line_dx l))"

section \<open>Properties of Line\<close>

lemma compute_slope_eq [geom_simps]:
  "compute_slope l =
     Inr (if line_dx l = 0 then None else Some (arctan (line_dy l / line_dx l) * (180 / pi)))"
  by (auto simp: compute_slope_def)

text \<open>C16: compute_slope returns the undefined value None exactly for a vertical line, and never raises.\<close>

lemma compute_slope_None_iff:
  "(\<exists>s. compute_slope l = Inr s) \<and>
   (compute_slope l = Inr None \<longleftrightarrow> px (line_start l) = px (line_end l))"
  by (simp add: compute_slope_eq)

text \<open>C17: A defined slope lies strictly between -90 and 90 degrees.\<close>

lemma compute_slope_range:
  "compute_slope l = Inr (Some d) \<Longrightarrow> -90 < d \<and> d < 90"
proof -
  assume "compute_slope l = Inr (Some d)"
  then obtain q where d: "d = arctan q * (180 / pi)"
    by (auto simp: compute_slope_eq split: if_splits)
  have "- (pi / 2) < arctan q" "arctan q < pi / 2"
    using arctan_bounded by auto
  with pi_gt_zero show ?thesis
    unfolding d by (simp add: field_simps)
qed

text \<open>C18: compute_slope does not distinguish the two directions of a line.\<close>

lemma compute_slope_reverse: "compute_slope (Line a b) = compute_slope (Line b a)"
proof -
  have "(py a - py b) / (px a - px b) = (py b - py a) / (px b - px a)"
    by (metis minus_diff_eq minus_divide_divide)
  then show ?thesis by (simp add: compute_slope_eq)
qed

lemma compute_length_sym: "compute_length (Line a b) = compute_length (Line b a)"
  by (simp add: compute_length_def power2_commute)

text \<open>C15: The length of a line is positive exactly when its endpoints differ (and zero otherwise).\<close>

lemma compute_length_pos_iff: "0 < compute_length (Line a b) \<longleftrightarrow> a \<noteq> b"
  by (auto simp: compute_length_def point_eq_iff less_le)

lemma compute_horizontal_cross_eq [geom_simps]:
  "compute_horizontal_cross l =
     (if line_dx l = 0 \<or> 0 < py (line_start l) * py (line_end l) then Inr None
      else if line_dy l = 0 then Inl ZeroDivisionError
      else Inr (Some (- py (line_start l) / (arctan (line_dy l / line_dx l) * (180 / pi))
                      + px (line_start l))))"
  by (auto simp: compute_horizontal_cross_def compute_slope_eq)

text \<open>C6: compute_horizontal_cross raises ZeroDivisionError exactly for a non-vertical line lying on the X axis.\<close>

lemma compute_horizontal_cross_error_iff:
  "compute_horizontal_cross l = Inl ZeroDivisionError \<longleftrightarrow>
     px (line_start l) \<noteq> px (line_end l) \<and> py (line_start l) = 0 \<and> py (line_end l) = 0"
proof -
  have sq: "0 < y * y \<longleftrightarrow> y \<noteq> (0::real)" for y
    by (simp add: zero_less_mult_iff) linarith
  show ?thesis
    by (auto simp: compute_horizontal_cross_eq sq)
qed

lemma compute_vertical_cross_eq [geom_simps]:
  "compute_vertical_cross l =
     (if line_dx l = 0 \<or> 0 < px (line_start l) * px (line_end l) then Inr None
      else if line_dy l = 0 then Inl ZeroDivisionError
      else Inr (Some (- px (line_start l) / (arctan (line_dy l / line_dx l) * (180 / pi))
                      + py (line_start l))))"
  by (auto simp: compute_vertical_cross_def compute_slope_eq)

text \<open>C5: compute_vertical_cross raises ZeroDivisionError exactly for a non-vertical horizontal line whose endpoints do not lie strictly on one side of the Y axis.\<close>

lemma compute_vertical_cross_error_iff:
  "compute_vertical_cross l = Inl ZeroDivisionError \<longleftrightarrow>
     px (line_start l) \<noteq> px (line_end l) \<and> py (line_start l) = py (line_end l)
     \<and> px (line_start l) * px (line_end l) \<le> 0"
  by (auto simp: compute_vertical_cross_eq)

lemma vertical_cross_horizontal_line:
  "compute_vertical_cross (Line (Point (-1) 1) (Point 1 1)) = Inl ZeroDivisionError"
  by (simp add: compute_vertical_cross_eq)

text \<open>Example: On the diagonal from (-1,-1) to (1,1), whose X-axis crossing is at 0, compute_horizontal_cross returns -44/45: the degree-valued slope is used as a ratio.\<close>

lemma horizontal_cross_diagonal:
  "compute_horizontal_cross (Line (Point (-1) (-1)) (Point 1 1)) = Inr (Some (- 44 / 45))"
  by (simp add: compute_horizontal_cross_eq arctan_one)

lemma compute_length_lerp:
  "compute_length (Line (point_lerp a b s) (point_lerp a b t)) = \<bar>t - s\<bar> * compute_length (Line a b)"
proof -
  have "(px a + t * (px b - px a) - (px a + s * (px b - px a)))\<^sup>2
        + (py a + t * (py b - py a) - (py a + s * (py b - py a)))\<^sup>2
        = (t - s)\<^sup>2 * ((px b - px a)\<^sup>2 + (py b - py a)\<^sup>2)"
    by (simp add: power2_eq_square algebra_simps)
  then show ?thesis
    by (simp add: compute_length_def point_lerp_def real_sqrt_mult)
qed

lemma discretize_line_short: "n < 2 \<Longrightarrow> discretize_line l n = Inr [line_start l, line_end l]"
  by (simp add: discretize_line_def)

lemma discretize_line_eq_lerp:
  "2 \<le> n \<Longrightarrow> discretize_line l n =
     Inr (map (\<lambda>i. point_lerp (line_start l) (line_end l) (real i / of_int (n - 1))) [0..<nat n])"
  by (simp add: discretize_line_def point_lerp_def)

text \<open>C9: For n >= 2, discretize_line never raises and returns exactly n points, the first being the start of the line.\<close>

lemma discretize_line_length_start:
  assumes "2 \<le> n"
  shows "\<exists>ps. discretize_line l n = Inr ps \<and> length ps = nat n \<and> hd ps = line_start l"
proof -
  have nz: "[0..<nat n] \<noteq> []" using assms by simp
  then show ?thesis
    using assms by (simp add: discretize_line_eq_lerp hd_map)
qed

text \<open>C10: Every point returned by discretize_line lies on the segment, at a parameter between 0 and 1.\<close>

lemma discretize_line_on_segment:
  assumes "discretize_line l n = Inr ps" and "p \<in> set ps"
  shows "\<exists>t. 0 \<le> t \<and> t \<le> 1 \<and> p = point_lerp (line_start l) (line_end l) t"
proof (cases "n < 2")
  case True
  with assms have "p = point_lerp (line_start l) (line_end l) 0
                   \<or> p = point_lerp (line_start l) (line_end l) 1"
    by (auto simp: discretize_line_def)
  then show ?thesis by (blast intro: zero_le_one)
next
  case False
  with assms obtain i where i: "i < nat n"
    and p: "p = point_lerp (line_start l) (line_end l) (real i / of_int (n - 1))"
    by (auto simp: discretize_line_eq_lerp)
  from i False have "real i \<le> of_int (n - 1)" by linarith
  with False have "real i / of_int (n - 1) \<le> 1" by simp
  moreover from False have "0 \<le> real i / of_int (n - 1)" by simp
  ultimately show ?thesis using p by blast
qed

text \<open>C11: Consecutive points returned by discretize_line are at distance length/(n-1): the sampling is evenly spaced.\<close>

lemma discretize_line_spacing:
  assumes "2 \<le> n" and "discretize_line l n = Inr ps" and "Suc i < length ps"
  shows "compute_length (Line (ps ! i) (ps ! Suc i)) = compute_length l / of_int (n - 1)"
proof -
  have ps: "ps = map (\<lambda>i. point_lerp (line_start l) (line_end l) (real i / of_int (n - 1))) [0..<nat n]"
    using assms(1,2) by (simp add: discretize_line_eq_lerp)
  have "real (Suc i) / of_int (n - 1) - real i / of_int (n - 1) = 1 / of_int (n - 1)"
    by (simp add: diff_divide_distrib [symmetric])
  moreover have "compute_length l = compute_length (Line (line_start l) (line_end l))"
    by simp
  ultimately show ?thesis
    using assms(1,3) by (simp add: ps compute_length_lerp)
qed

lemma cross_formula_eq_iff:
  "m \<noteq> 0 \<Longrightarrow> d \<noteq> 0 \<Longrightarrow> x - y / m = - y / d + x \<longleftrightarrow> y = 0 \<or> d = (m::real)"
  by (auto simp: field_simps)

lemma cross_formula_eq_iff':
  "d \<noteq> 0 \<Longrightarrow> y - x * m = - x / d + y \<longleftrightarrow> x = 0 \<or> d * m = (1::real)"
  by (auto simp: field_simps)

text \<open>C7: Where compute_horizontal_cross returns a value, it is the X-axis intercept the spec intends exactly when the start lies on the X axis or the slope in degrees happens to equal the ratio dy/dx.\<close>

lemma horizontal_cross_agrees_iff:
  assumes "compute_horizontal_cross l = Inr (Some c)"
  shows "x_axis_intercept l = Some c \<longleftrightarrow>
           py (line_start l) = 0 \<or> arctan (line_dy l / line_dx l) * (180 / pi) = line_dy l / line_dx l"
proof -
  define m where "m = line_dy l / line_dx l"
  define d where "d = arctan m * (180 / pi)"
  from assms have dx: "line_dx l \<noteq> 0" and dy: "line_dy l \<noteq> 0"
    and c: "c = - py (line_start l) / d + px (line_start l)"
    by (auto simp: compute_horizontal_cross_eq m_def d_def split: if_splits)
  from dx dy have m: "m \<noteq> 0" by (simp add: m_def)
  then have d: "d \<noteq> 0" by (simp add: d_def)
  have "x_axis_intercept l = Some (px (line_start l) - py (line_start l) / m)"
    using dy by (simp add: x_axis_intercept_def m_def)
  then have "x_axis_intercept l = Some c \<longleftrightarrow> px (line_start l) - py (line_start l) / m = c"
    by simp
  also have "\<dots> \<longleftrightarrow> py (line_start l) = 0 \<or> d = m"
    unfolding c by (rule cross_formula_eq_iff [OF m d])
  finally show ?thesis by (simp add: m_def d_def)
qed

text \<open>C8: Where compute_vertical_cross returns a value, it is the Y-axis intercept the spec intends exactly when the start lies on the Y axis or the slope in degrees times the ratio dy/dx is 1.\<close>

lemma vertical_cross_agrees_iff:
  assumes "compute_vertical_cross l = Inr (Some c)"
  shows "y_axis_intercept l = Some c \<longleftrightarrow>
           px (line_start l) = 0 \<or> arctan (line_dy l / line_dx l) * (180 / pi) * (line_dy l / line_dx l) = 1"
proof -
  define m where "m = line_dy l / line_dx l"
  define d where "d = arctan m * (180 / pi)"
  from assms have dx: "line_dx l \<noteq> 0" and dy: "line_dy l \<noteq> 0"
    and c: "c = - px (line_start l) / d + py (line_start l)"
    by (auto simp: compute_vertical_cross_eq m_def d_def split: if_splits)
  from dx dy have "m \<noteq> 0" by (simp add: m_def)
  then have d: "d \<noteq> 0" by (simp add: d_def)
  have "y_axis_intercept l = Some (py (line_start l) - px (line_start l) * m)"
    using dx by (simp add: y_axis_intercept_def m_def)
  then have "y_axis_intercept l = Some c \<longleftrightarrow> py (line_start l) - px (line_start l) * m = c"
    by simp
  also have "\<dots> \<longleftrightarrow> px (line_start l) = 0 \<or> d * m = 1"
    unfolding c by (rule cross_formula_eq_iff' [OF d])
  finally show ?thesis by (simp add: m_def d_def)
qed

subsection \<open>Witnesses\<close>

lemma compute_slope_range_witness:
  "compute_slope (Line (Point 0 0) (Point 1 1)) = Inr (Some 45) \<and> -90 < (45::real) \<and> (45::real) < 90"
proof -
  have h: "compute_slope (Line (Point 0 0) (Point 1 1)) = Inr (Some 45)"
    by (simp add: compute_slope_eq arctan_one)
  show ?thesis using compute_slope_range [OF h] h by simp
qed

lemma discretize_line_short_witness:
  "(1::int) < 2 \<and> discretize_line (Line (Point 0 0) (Point 2 2)) 1 = Inr [Point 0 0, Point 2 2]"
  using discretize_line_short [of 1 "Line (Point 0 0) (Point 2 2)"] by simp

lemma discretize_line_3:
  "discretize_line (Line (Point 0 0) (Point 2 2)) 3 = Inr [Point 0 0, Point 1 1, Point 2 2]"
  by (simp add: discretize_line_def upt_rec)

lemma discretize_line_length_start_witness:
  "2 \<le> (3::int) \<and> (\<exists>ps. discretize_line (Line (Point 0 0) (Point 2 2)) 3 = Inr ps \<and> length ps = 3
      \<and> hd ps = Point 0 0)"
  using discretize_line_length_start [of 3 "Line (Point 0 0) (Point 2 2)"] by simp

lemma discretize_line_on_segment_witness:
  "discretize_line (Line (Point 0 0) (Point 2 2)) 3 = Inr [Point 0 0, Point 1 1, Point 2 2]
   \<and> Point 1 1 \<in> set [Point 0 0, Point 1 1, Point 2 2]
   \<and> (\<exists>t. 0 \<le> t \<and> t \<le> 1 \<and> Point 1 1 = point_lerp (Point 0 0) (Point 2 2) t)"
  using discretize_line_on_segment [OF discretize_line_3, of "Point 1 1"] discretize_line_3 by simp

lemma discretize_line_spacing_witness:
  "2 \<le> (3::int) \<and> discretize_line (Line (Point 0 0) (Point 2 2)) 3 = Inr [Point 0 0, Point 1 1, Point 2 2]
   \<and> Suc 0 < length [Point 0 0, Point 1 1, Point 2 2]
   \<and> compute_length (Line (Point 0 0) (Point 1 1)) = compute_length (Line (Point 0 0) (Point 2 2)) / 2"
  using discretize_line_spacing [OF _ discretize_line_3, of 0] discretize_line_3 by simp

lemma horizontal_cross_agrees_iff_witness:
  "compute_horizontal_cross (Line (Point 2 0) (Point 3 1)) = Inr (Some 2) \<and>
   x_axis_intercept (Line (Point 2 0) (Point 3 1)) = Some 2"
proof -
  have h: "compute_horizontal_cross (Line (Point 2 0) (Point 3 1)) = Inr (Some 2)"
    by (simp add: compute_horizontal_cross_eq arctan_one)
  show ?thesis using horizontal_cross_agrees_iff [OF h] h by simp
qed

lemma vertical_cross_agrees_iff_witness:
  "compute_vertical_cross (Line (Point 0 2) (Point 1 3)) = Inr (Some 2) \<and>
   y_axis_intercept (Line (Point 0 2) (Point 1 3)) = Some 2"
proof -
  have h: "compute_vertical_cross (Line (Point 0 2) (Point 1 3)) = Inr (Some 2)"
    by (simp add: compute_vertical_cross_eq arctan_one)
  show ?thesis using vertical_cross_agrees_iff [OF h] h by simp
qed

end
