(* ===== verification/Rectangles.thy ===== *)
theory Rectangles
  imports Lines
begin

text \<open>
  The class \<open>Rectangle\<close> of \<open>src/classLine.py\<close> (lines 58--105). Its constructor
  stores the four lines and derives every other attribute once; the record
  \<open>rectangle\<close> holds exactly these attributes and \<open>rectangle_init\<close> computes them as
  \<open>__init__\<close> does. \<open>rectangle_from_corners\<close> is the class method
  \<open>from_corners\<close>. The intended shape of a rectangle (the invariant the spec states
  and the code does not check) is \<open>rect_wf\<close>; its abstraction to the two opposite
  corners is \<open>rect_abs\<close>, with the abstract measures \<open>box_area\<close>,
  \<open>box_perimeter\<close> and \<open>box_contains\<close>.
\<close>

record rectangle =
  lines :: "line list"
  bottom_left :: point
  bottom_right :: point
  top_left :: point
  top_right :: point
  width :: py_float
  height :: py_float
  center :: point

definition rectangle_init :: "line \<Rightarrow> line \<Rightarrow> line \<Rightarrow> line \<Rightarrow> rectangle" where
  "rectangle_init line1 line2 line3 line4 =
     \<lparr>lines = [line1, line2, line3, line4],
      bottom_left = line_start line1,
      bottom_right = line_end line1,
      top_left = line_start line3,
      top_right = line_end line3,
      width = compute_length line1,
      height = compute_length line3,
      center = Point ((px (line_start line1) + px (line_end line3)) / 2)
                     ((py (line_start line1) + py (line_end line3)) / 2)\<rparr>"

definition rectangle_from_corners :: "point \<Rightarrow> point \<Rightarrow> rectangle" where
  "rectangle_from_corners corner1 corner2 =
     (let bl = Point (min (px corner1) (px corner2)) (min (py corner1) (py corner2));
          tr = Point (max (px corner1) (px corner2)) (max (py corner1) (py corner2));
          line1 = Line bl (Point (px tr) (py bl));
          line2 = Line (Point (px tr) (py bl)) tr;
          line3 = Line (Point (px bl) (py tr)) tr;
          line4 = Line bl (Point (px bl) (py tr))
      in rectangle_init line1 line2 line3 line4)"

definition compute_area :: "rectangle \<Rightarrow> py_float" where
  "compute_area r = width r * height r"

definition compute_perimeter :: "rectangle \<Rightarrow> py_float" where
  "compute_perimeter r = 2 * (width r + height r)"

definition contains_point :: "rectangle \<Rightarrow> point \<Rightarrow> bool" where
  "contains_point r p \<longleftrightarrow>
     (px (bottom_left r) \<le> px p \<and> px p \<le> px (top_right r)) \<and>
     (py (bottom_left r) \<le> py p \<and> py p \<le> py (top_right r))"

subsection \<open>The intended shape and its abstraction\<close>

definition rect_wf :: "rectangle \<Rightarrow> bool" where
  "rect_wf r \<longleftrightarrow>
     (let bl = bottom_left r; tr = top_right r in
        px bl \<le> px tr \<and> py bl \<le> py tr \<and>
        bottom_right r = Point (px tr) (py bl) \<and> top_left r = Point (px bl) (py tr) \<and>
        lines r = [Line bl (bottom_right r), Line (bottom_right r) tr,
                   Line (top_left r) tr, Line bl (top_left r)] \<and>
        width r = px tr - px bl \<and> height r = py tr - py bl \<and>
        center r = Point ((px bl + px tr) / 2) ((py bl + py tr) / 2))"

type_synonym box = "point \<times> point"

definition rect_abs :: "rectangle \<Rightarrow> box" where
  "rect_abs r = (bottom_left r, top_right r)"

definition box_area :: "box \<Rightarrow> real" where
  "box_area b = (px (snd b) - px (fst b)) * (py (snd b) - py (fst b))"

definition box_perimeter :: "box \<Rightarrow> real" where
  "box_perimeter b = 2 * ((px (snd b) - px (fst b)) + (py (snd b) - py (fst b)))"

definition box_contains :: "box \<Rightarrow> point \<Rightarrow> bool" where
  "box_contains b p \<longleftrightarrow>
     px (fst b) \<le> px p \<and> px p \<le> px (snd b) \<and> py (fst b) \<le> py p \<and> py p \<le> py (snd b)"

section \<open>Properties of Rectangle\<close>

lemma rectangle_from_corners_fields [geom_simps]:
  "bottom_left (rectangle_from_corners c1 c2) = Point (min (px c1) (px c2)) (min (py c1) (py c2))"
  "top_right (rectangle_from_corners c1 c2) = Point (max (px c1) (px c2)) (max (py c1) (py c2))"
  "bottom_right (rectangle_from_corners c1 c2) = Point (max (px c1) (px c2)) (min (py c1) (py c2))"
  "top_left (rectangle_from_corners c1 c2) = Point (min (px c1) (px c2)) (max (py c1) (py c2))"
  "center (rectangle_from_corners c1 c2) = Point ((px c1 + px c2) / 2) ((py c1 + py c2) / 2)"
  "lines (rectangle_from_corners c1 c2) =
     [Line (bottom_left (rectangle_from_corners c1 c2)) (bottom_right (rectangle_from_corners c1 c2)),
      Line (bottom_right (rectangle_from_corners c1 c2)) (top_right (rectangle_from_corners c1 c2)),
      Line (top_left (rectangle_from_corners c1 c2)) (top_right (rectangle_from_corners c1 c2)),
      Line (bottom_left (rectangle_from_corners c1 c2)) (top_left (rectangle_from_corners c1 c2))]"
  by (simp_all add: rectangle_from_corners_def rectangle_init_def Let_def)

lemma rectangle_from_corners_dims [geom_simps]:
  "width (rectangle_from_corners c1 c2) = \<bar>px c1 - px c2\<bar>"
  "height (rectangle_from_corners c1 c2) = \<bar>px c1 - px c2\<bar>"
  by (simp_all add: rectangle_from_corners_def rectangle_init_def compute_length_def Let_def
                    abs_minus_commute)

text \<open>C1: The height of Rectangle.from_corners is the horizontal distance of the corners: __init__ takes the height from the top edge line3, not from the vertical edge line2.\<close>

lemma from_corners_height:
  "height (rectangle_from_corners c1 c2) = \<bar>px c1 - px c2\<bar>"
  by (simp add: geom_simps)

text \<open>C2: A rectangle built by Rectangle.from_corners has the intended shape (corners, lines, width, height and center consistent) exactly when the two corners span a square.\<close>

lemma from_corners_wf_iff:
  "rect_wf (rectangle_from_corners c1 c2) \<longleftrightarrow> \<bar>px c1 - px c2\<bar> = \<bar>py c1 - py c2\<bar>"
  by (simp add: rect_wf_def geom_simps Let_def) (simp add: min_def max_def)

text \<open>C4: Rectangle.__init__ reads only line1 and line3: replacing line2 and line4 changes nothing but the stored list of lines.\<close>

lemma rectangle_init_side_lines:
  "rectangle_init line1 line2 line3 line4 =
     (rectangle_init line1 line2' line3 line4')\<lparr>lines := [line1, line2, line3, line4]\<rparr>"
  by (simp add: rectangle_init_def)

text \<open>C19: On a rectangle of the intended shape, compute_area, compute_perimeter and contains_point implement the area, perimeter and membership of the box spanned by its corners.\<close>

lemma rect_wf_refines_box:
  assumes "rect_wf r"
  shows "compute_area r = box_area (rect_abs r) \<and>
         compute_perimeter r = box_perimeter (rect_abs r) \<and>
         contains_point r p = box_contains (rect_abs r) p"
  using assms
  by (simp add: rect_wf_def Let_def compute_area_def compute_perimeter_def contains_point_def
                rect_abs_def box_area_def box_perimeter_def box_contains_def)

lemma from_corners_area: "compute_area (rectangle_from_corners c1 c2) = (px c1 - px c2)\<^sup>2"
  by (simp add: compute_area_def geom_simps power2_eq_square)

lemma from_corners_perimeter:
  "compute_perimeter (rectangle_from_corners c1 c2) = 4 * \<bar>px c1 - px c2\<bar>"
  by (simp add: compute_perimeter_def geom_simps)

text \<open>C3: compute_area of a from_corners rectangle equals the area of the box its corners span only for degenerate or square boxes.\<close>

lemma from_corners_area_vs_box:
  "compute_area (rectangle_from_corners c1 c2) = box_area (rect_abs (rectangle_from_corners c1 c2))
   \<longleftrightarrow> px c1 = px c2 \<or> \<bar>px c1 - px c2\<bar> = \<bar>py c1 - py c2\<bar>"
proof -
  have "box_area (rect_abs (rectangle_from_corners c1 c2)) = \<bar>px c1 - px c2\<bar> * \<bar>py c1 - py c2\<bar>"
    by (simp add: box_area_def rect_abs_def geom_simps)
  moreover have "compute_area (rectangle_from_corners c1 c2) = \<bar>px c1 - px c2\<bar> * \<bar>px c1 - px c2\<bar>"
    by (simp add: compute_area_def geom_simps)
  ultimately have "compute_area (rectangle_from_corners c1 c2)
      = box_area (rect_abs (rectangle_from_corners c1 c2))
    \<longleftrightarrow> \<bar>px c1 - px c2\<bar> * \<bar>px c1 - px c2\<bar> = \<bar>px c1 - px c2\<bar> * \<bar>py c1 - py c2\<bar>"
    by (simp only:)
  also have "\<dots> \<longleftrightarrow> \<bar>px c1 - px c2\<bar> = 0 \<or> \<bar>px c1 - px c2\<bar> = \<bar>py c1 - py c2\<bar>"
    by (rule mult_cancel_left)
  finally show ?thesis by simp
qed

text \<open>C20: A from_corners rectangle contains exactly the points between the two corners in both coordinates, boundary included.\<close>

lemma contains_point_from_corners:
  "contains_point (rectangle_from_corners c1 c2) p \<longleftrightarrow>
     min (px c1) (px c2) \<le> px p \<and> px p \<le> max (px c1) (px c2) \<and>
     min (py c1) (py c2) \<le> py p \<and> py p \<le> max (py c1) (py c2)"
  by (simp add: contains_point_def geom_simps)

text \<open>C21: Rectangle.from_corners does not depend on the order of the two corners.\<close>

lemma from_corners_sym: "rectangle_from_corners c1 c2 = rectangle_from_corners c2 c1"
  by (simp add: rectangle_from_corners_def min.commute max.commute)

lemma from_corners_antidiagonal:
  "rectangle_from_corners (Point x1 y2) (Point x2 y1) = rectangle_from_corners (Point x1 y1) (Point x2 y2)"
  by (simp add: rectangle_from_corners_def Let_def min.commute max.commute)

lemma rectangle_from_corners_minmax:
  "rectangle_from_corners (Point (min (px c1) (px c2)) (min (py c1) (py c2)))
                          (Point (max (px c1) (px c2)) (max (py c1) (py c2)))
   = rectangle_from_corners c1 c2"
  by (simp add: rectangle_from_corners_def Let_def)

end
