(* ===== verification/Squares.thy ===== *)
theory Squares
  imports Rectangles
begin

text \<open>
  The class \<open>Square(Rectangle)\<close> of \<open>src/classLine.py\<close> (lines 108--133). A square
  is a rectangle value (the subclass adds no attribute): \<open>square_init\<close> builds the
  four lines from a bottom-left corner and a side length and hands them to
  \<open>rectangle_init\<close>, as \<open>super().__init__\<close> does; \<open>square_from_center\<close> and
  \<open>square_from_corners\<close> are the two class methods, which both go through
  \<open>square_init\<close>.
\<close>

definition square_init :: "point \<Rightarrow> py_float \<Rightarrow> rectangle" where
  "square_init bl side_length =
     (let line1 = Line bl (Point (px bl + side_length) (py bl));
          line2 = Line (Point (px bl + side_length) (py bl))
                       (Point (px bl + side_length) (py bl + side_length));
          line3 = Line (Point (px bl) (py bl + side_length))
                       (Point (px bl + side_length) (py bl + side_length));
          line4 = Line bl (Point (px bl) (py bl + side_length))
      in rectangle_init line1 line2 line3 line4)"

definition square_from_center :: "point \<Rightarrow> py_float \<Rightarrow> rectangle" where
  "square_from_center c side_length =
     square_init (Point (px c - side_length / 2) (py c - side_length / 2)) side_length"

definition square_from_corners :: "point \<Rightarrow> point \<Rightarrow> rectangle" where
  "square_from_corners corner1 corner2 =
     (let side_length = min (\<bar>px corner1 - px corner2\<bar>) (\<bar>py corner1 - py corner2\<bar>);
          bl = Point (min (px corner1) (px corner2)) (min (py corner1) (py corner2))
      in square_init bl side_length)"

section \<open>Properties of Square\<close>

lemma square_init_fields [geom_simps]:
  "bottom_left (square_init bl s) = bl"
  "top_right (square_init bl s) = Point (px bl + s) (py bl + s)"
  "bottom_right (square_init bl s) = Point (px bl + s) (py bl)"
  "top_left (square_init bl s) = Point (px bl) (py bl + s)"
  "width (square_init bl s) = \<bar>s\<bar>"
  "height (square_init bl s) = \<bar>s\<bar>"
  "center (square_init bl s) = Point ((px bl + (px bl + s)) / 2) ((py bl + (py bl + s)) / 2)"
  "lines (square_init bl s) =
     [Line bl (Point (px bl + s) (py bl)), Line (Point (px bl + s) (py bl)) (Point (px bl + s) (py bl + s)),
      Line (Point (px bl) (py bl + s)) (Point (px bl + s) (py bl + s)), Line bl (Point (px bl) (py bl + s))]"
  by (simp_all add: square_init_def rectangle_init_def compute_length_def Let_def)

lemma square_init_dims: "width (square_init bl s) = \<bar>s\<bar> \<and> height (square_init bl s) = \<bar>s\<bar>"
  by (simp add: geom_simps)

text \<open>C23: A square built from a corner and a side has the intended rectangle shape exactly when the side is not negative.\<close>

lemma square_init_wf_iff: "rect_wf (square_init bl s) \<longleftrightarrow> 0 \<le> s"
  by (auto simp: rect_wf_def geom_simps Let_def)

lemma square_init_eq_from_corners:
  "0 \<le> s \<Longrightarrow> square_init bl s = rectangle_from_corners bl (Point (px bl + s) (py bl + s))"
  by (simp add: square_init_def rectangle_from_corners_def Let_def)

text \<open>C24: Square.from_center places the center of the square at the given point.\<close>

lemma square_from_center_center: "center (square_from_center c s) = c"
  by (simp add: square_from_center_def geom_simps field_simps point_eq_iff)

text \<open>C25: Square.from_corners uses the smaller of the two coordinate distances as side length.\<close>

lemma square_from_corners_side:
  "width (square_from_corners c1 c2) = min (\<bar>px c1 - px c2\<bar>) (\<bar>py c1 - py c2\<bar>) \<and>
   height (square_from_corners c1 c2) = min (\<bar>px c1 - px c2\<bar>) (\<bar>py c1 - py c2\<bar>)"
  by (simp add: square_from_corners_def Let_def geom_simps)

text \<open>C26: The square built by Square.from_corners lies inside the rectangle spanned by the same corners.\<close>

lemma square_from_corners_within:
  "contains_point (square_from_corners c1 c2) p \<Longrightarrow> contains_point (rectangle_from_corners c1 c2) p"
  by (auto simp: square_from_corners_def Let_def contains_point_def geom_simps min_def max_def
           split: if_splits)

lemma square_area_perimeter:
  "compute_area (square_init bl s) = s\<^sup>2 \<and> compute_perimeter (square_init bl s) = 4 * \<bar>s\<bar>"
  by (simp add: compute_area_def compute_perimeter_def geom_simps power2_eq_square)

text \<open>C27: A square with a negative side contains no point, yet reports a positive area.\<close>

lemma square_negative_side_empty:
  "s < 0 \<Longrightarrow> \<not> contains_point (square_init bl s) p \<and> 0 < compute_area (square_init bl s)"
  by (auto simp: contains_point_def compute_area_def geom_simps mult_neg_neg)

subsection \<open>Witnesses\<close>

lemma rect_wf_refines_box_witness:
  "rect_wf (square_init (Point 0 0) 2) \<and>
   compute_area (square_init (Point 0 0) 2) = box_area (rect_abs (square_init (Point 0 0) 2)) \<and>
   compute_perimeter (square_init (Point 0 0) 2) = box_perimeter (rect_abs (square_init (Point 0 0) 2)) \<and>
   contains_point (square_init (Point 0 0) 2) (Point 1 1) = box_contains (rect_abs (square_init (Point 0 0) 2)) (Point 1 1)"
proof -
  have h: "rect_wf (square_init (Point 0 0) 2)"
    by (simp add: rect_wf_def geom_simps Let_def)
  show ?thesis using rect_wf_refines_box [OF h, of "Point 1 1"] h by simp
qed

lemma square_from_corners_within_witness:
  "contains_point (square_from_corners (Point 0 0) (Point 5 2)) (Point 1 1) \<and>
   contains_point (rectangle_from_corners (Point 0 0) (Point 5 2)) (Point 1 1)"
proof -
  have h: "contains_point (square_from_corners (Point 0 0) (Point 5 2)) (Point 1 1)"
    by (simp add: square_from_corners_def contains_point_def geom_simps)
  show ?thesis using square_from_corners_within [OF h] h by simp
qed

lemma square_negative_side_empty_witness:
  "(-1::real) < 0 \<and> \<not> contains_point (square_init (Point 0 0) (-1)) (Point 0 0)
   \<and> 0 < compute_area (square_init (Point 0 0) (-1))"
  using square_negative_side_empty [of "-1" "Point 0 0" "Point 0 0"] by simp

end
