(* ===== verification/MenuItems.thy ===== *)
theory MenuItems
  imports Prelude
begin

text \<open>
  The item hierarchy of \<open>src/RestaurantScenario.py\<close> (lines 1--53): the base class
  \<open>MenuItem\<close> and its subclasses \<open>Beverage\<close>, \<open>Appetizer\<close> and \<open>MainCourse\<close>,
  each adding one flag. The closed set of classes is one datatype with a constructor
  per class; \<open>total_price\<close> dispatches on the constructor as Python's method
  lookup does, and \<open>menu_item_total_price\<close> is the base method that the overrides
  reach through \<open>super().total_price()\<close>.
\<close>

datatype menu_item =
    MenuItem (item_name: string) (price: py_float) (quantity: py_int)
  | Beverage (item_name: string) (price: py_float) (quantity: py_int) (is_alcoholic: bool)
  | Appetizer (item_name: string) (price: py_float) (quantity: py_int) (with_sauce: bool)
  | MainCourse (item_name: string) (price: py_float) (quantity: py_int) (is_vegetarian: bool)

definition menu_item_total_price :: "menu_item \<Rightarrow> py_float" where
  "menu_item_total_price item = price item * of_int (quantity item)"

fun total_price :: "menu_item \<Rightarrow> py_float" where
  "total_price (MenuItem n p q) = menu_item_total_price (MenuItem n p q)"
| "total_price (Beverage n p q alc) =
     (let base_price = menu_item_total_price (Beverage n p q alc)
      in if alc \<and> 5 \<le> q then base_price * 0.9 else base_price)"
| "total_price (Appetizer n p q s) = menu_item_total_price (Appetizer n p q s)"
| "total_price (MainCourse n p q veg) =
     (let base_price = menu_item_total_price (MainCourse n p q veg)
      in if veg then base_price * 0.85 else base_price)"

text \<open>The discount the code grants an item, as a rate: the abstract pricing rule.\<close>

fun discount_rate :: "menu_item \<Rightarrow> real" where
  "discount_rate (Beverage n p q alc) = (if alc \<and> 5 \<le> q then 0.9 else 1)"
| "discount_rate (MainCourse n p q veg) = (if veg then 0.85 else 1)"
| "discount_rate _ = 1"

definition valid_item :: "menu_item \<Rightarrow> bool" where
  "valid_item item \<longleftrightarrow> 0 \<le> price item \<and> 0 \<le> quantity item"

section \<open>Properties of the menu items\<close>

lemma total_price_rate [order_simps]:
  "total_price item = menu_item_total_price item * discount_rate item"
  by (cases item) (simp_all add: Let_def)

lemma discount_rate_bounds: "0.85 \<le> discount_rate item \<and> discount_rate item \<le> 1"
  by (cases item) simp_all

lemma total_price_le_base:
  "valid_item item \<Longrightarrow> 0 \<le> total_price item \<and> total_price item \<le> menu_item_total_price item"
proof -
  assume "valid_item item"
  then have "0 \<le> menu_item_total_price item"
    by (simp add: valid_item_def menu_item_total_price_def)
  moreover have "0 \<le> discount_rate item" "discount_rate item \<le> 1"
    using discount_rate_bounds [of item] by auto
  ultimately show ?thesis by (simp add: total_price_rate mult_left_le)
qed

text \<open>C32: For an item of non-negative price and quantity, total_price is between 85% and 100% of price times quantity.\<close>

lemma total_price_bounds:
  "valid_item item \<Longrightarrow>
     0.85 * menu_item_total_price item \<le> total_price item \<and>
     total_price item \<le> menu_item_total_price item"
proof -
  assume "valid_item item"
  then have base: "0 \<le> menu_item_total_price item"
    by (simp add: valid_item_def menu_item_total_price_def)
  have r: "0.85 \<le> discount_rate item" "discount_rate item \<le> 1"
    using discount_rate_bounds by auto
  from mult_left_mono [OF r(1) base]
  have "0.85 * menu_item_total_price item \<le> menu_item_total_price item * discount_rate item"
    by (metis mult.commute)
  moreover from base r(2) have "menu_item_total_price item * discount_rate item \<le> menu_item_total_price item"
    by (simp add: mult_left_le)
  ultimately show ?thesis by (simp add: total_price_rate)
qed

text \<open>C33: total_price differs from price times quantity exactly for a non-zero alcoholic beverage ordered at least 5 times or a non-zero vegetarian main course.\<close>

lemma total_price_discounted_iff:
  "total_price item \<noteq> menu_item_total_price item \<longleftrightarrow>
     menu_item_total_price item \<noteq> 0 \<and>
     (case item of Beverage _ _ q alc \<Rightarrow> alc \<and> 5 \<le> q | MainCourse _ _ _ veg \<Rightarrow> veg | _ \<Rightarrow> False)"
  by (cases item) (auto simp: Let_def)

lemma total_price_bounds_witness:
  "valid_item (MainCourse ''Lasagna'' 10 2 True) \<and>
   0.85 * menu_item_total_price (MainCourse ''Lasagna'' 10 2 True) \<le> total_price (MainCourse ''Lasagna'' 10 2 True) \<and>
   total_price (MainCourse ''Lasagna'' 10 2 True) \<le> menu_item_total_price (MainCourse ''Lasagna'' 10 2 True)"
proof -
  have h: "valid_item (MainCourse ''Lasagna'' 10 2 True)" by (simp add: valid_item_def)
  show ?thesis using total_price_bounds [OF h] h by simp
qed

end
