(* ===== verification/Orders.thy ===== *)
theory Orders
  imports MenuItems
begin

text \<open>
  The class \<open>Order\<close> of \<open>src/RestaurantScenario.py\<close> (lines 56--76) and the two
  scripted orders of the same file (lines 80--91 and 99--106). The object's only
  attribute is the list \<open>items\<close>; \<open>add_item\<close> returns the updated order instead
  of appending in place. The \<open>for\<close> loop of \<open>calculate_total\<close> is the structural
  recursion \<open>sum_totals\<close> over the list with the running total as accumulator.
  An order's life is a sequence of \<open>add_item\<close> calls from the empty order:
  \<open>order_reachable\<close> is the set of orders built that way from valid items.
\<close>

record order =
  items :: "menu_item list"

definition order_init :: order where
  "order_init = \<lparr>items = []\<rparr>"

definition add_item :: "order \<Rightarrow> menu_item \<Rightarrow> order" where
  "add_item ord item = ord\<lparr>items := items ord @ [item]\<rparr>"

fun sum_totals :: "py_float \<Rightarrow> menu_item list \<Rightarrow> py_float" where
  "sum_totals subtotal [] = subtotal"
| "sum_totals subtotal (item # rest) = sum_totals (subtotal + total_price item) rest"

definition calculate_total :: "order \<Rightarrow> py_float" where
  "calculate_total ord =
     (let subtotal = sum_totals 0 (items ord)
      in if 100 < subtotal then subtotal * 0.95 else subtotal)"

fun add_items :: "order \<Rightarrow> menu_item list \<Rightarrow> order" where
  "add_items ord [] = ord"
| "add_items ord (item # rest) = add_items (add_item ord item) rest"

inductive order_reachable :: "order \<Rightarrow> bool" where
  init: "order_reachable order_init"
| add: "order_reachable ord \<Longrightarrow> valid_item item \<Longrightarrow> order_reachable (add_item ord item)"

text \<open>The module-level order of lines 80--91.\<close>

definition demo_order :: order where
  "demo_order = add_items order_init
     [Beverage ''Coca-Cola'' 2.5 3 False,
      Beverage ''Red Wine'' 10.0 6 True,
      Appetizer ''Spring Rolls'' 5.0 2 True,
      Appetizer ''Garlic Bread'' 4.0 1 False,
      MainCourse ''Grilled Chicken'' 15.0 1 False,
      MainCourse ''Vegetarian Lasagna'' 12.0 2 True,
      MainCourse ''Steak'' 22.0 1 False,
      Beverage ''Orange Juice'' 3.5 2 False,
      Appetizer ''Stuffed Mushrooms'' 6.5 1 False,
      MainCourse ''Fish and Chips'' 14.0 1 False]"

text \<open>The order of the \<open>__main__\<close> block, lines 99--106.\<close>

definition main_order :: order where
  "main_order = add_items order_init
     [MainCourse ''Grilled Chicken'' 15.00 1 False,
      MainCourse ''Vegetarian Lasagna'' 10.20 1 True,
      Appetizer ''Spring Rolls'' 5.00 1 True,
      Beverage ''Coca-Cola'' 2.50 1 False,
      Beverage ''Red Wine'' 9.00 1 True]"

section \<open>Properties of Order\<close>

inductive_cases order_reachable_addE: "order_reachable (add_item ord item)"

lemma add_item_inject: "add_item o1 i1 = add_item o2 i2 \<longleftrightarrow> o1 = o2 \<and> i1 = i2"
  by (cases o1; cases o2) (auto simp: add_item_def)

lemma add_item_not_init: "add_item ord item \<noteq> order_init"
  by (cases ord) (simp add: add_item_def order_init_def)

lemma order_reachable_add_item_inv:
  "order_reachable (add_item ord item) \<Longrightarrow> order_reachable ord \<and> valid_item item"
  by (erule order_reachable_addE) (simp_all add: add_item_inject add_item_not_init)

lemma sum_totals_eq [order_simps]:
  "sum_totals subtotal xs = subtotal + sum_list (map total_price xs)"
  by (induction xs arbitrary: subtotal) (simp_all add: algebra_simps)

lemma items_add_items [order_simps]: "items (add_items ord xs) = items ord @ xs"
  by (induction xs arbitrary: ord) (simp_all add: add_item_def)

lemma order_reachable_add_items:
  "order_reachable ord \<Longrightarrow> \<forall>item \<in> set xs. valid_item item \<Longrightarrow> order_reachable (add_items ord xs)"
  by (induction xs arbitrary: ord) (auto intro: order_reachable.add)

lemma calculate_total_eq [order_simps]:
  "calculate_total ord =
     (let s = sum_list (map total_price (items ord)) in if 100 < s then s * 0.95 else s)"
  by (simp add: calculate_total_def sum_totals_eq)

lemma add_item_subtotal:
  "sum_totals 0 (items (add_item ord item)) = sum_totals 0 (items ord) + total_price item"
  by (simp add: add_item_def sum_totals_eq)

lemma order_reachable_valid: "order_reachable ord \<Longrightarrow> \<forall>item \<in> set (items ord). valid_item item"
  by (induction rule: order_reachable.induct) (auto simp: order_init_def add_item_def)

lemma sum_list_total_price_bounds:
  "\<forall>item \<in> set xs. valid_item item \<Longrightarrow>
     0 \<le> sum_list (map total_price xs) \<and>
     sum_list (map total_price xs) \<le> sum_list (map menu_item_total_price xs)"
proof (induction xs)
  case Nil
  then show ?case by simp
next
  case (Cons x xs)
  have "0 \<le> total_price x" "total_price x \<le> menu_item_total_price x"
    using Cons.prems total_price_le_base [of x] by auto
  with Cons show ?case by simp
qed

lemma total_price_pos:
  "0 < price item \<Longrightarrow> 0 < quantity item \<Longrightarrow> 0 < total_price item"
proof -
  assume "0 < price item" "0 < quantity item"
  then have "0 < menu_item_total_price item" by (simp add: menu_item_total_price_def)
  moreover have "0 < discount_rate item" using discount_rate_bounds [of item] by simp
  ultimately show ?thesis by (simp add: total_price_rate)
qed

lemma discount_drop_iff:
  fixes s t :: real
  assumes "0 \<le> t"
  shows "(if 100 < s + t then (s + t) * 0.95 else s + t) < (if 100 < s then s * 0.95 else s) \<longleftrightarrow>
         s \<le> 100 \<and> 100 < s + t \<and> (s + t) * 0.95 < s"
  using assms by (auto split: if_splits)

text \<open>C30: For an order built from items of non-negative price and quantity, the total is non-negative and at most the undiscounted sum of the item prices.\<close>

lemma calculate_total_bounds:
  assumes "order_reachable ord"
  shows "0 \<le> calculate_total ord \<and>
         calculate_total ord \<le> sum_list (map menu_item_total_price (items ord))"
proof -
  let ?s = "sum_list (map total_price (items ord))"
  have "0 \<le> ?s" "?s \<le> sum_list (map menu_item_total_price (items ord))"
    using sum_list_total_price_bounds [OF order_reachable_valid [OF assms]] by auto
  then show ?thesis by (simp add: calculate_total_eq Let_def)
qed

text \<open>C29: Adding an item of non-negative price and quantity lowers the order's total exactly when the subtotal s was at most 100, the new subtotal s + t exceeds 100, and 95% of s + t is below s: the discount starts abruptly above 100.\<close>

lemma calculate_total_drop_iff:
  assumes "valid_item item"
  shows "calculate_total (add_item ord item) < calculate_total ord \<longleftrightarrow>
         (let s = sum_totals 0 (items ord); t = total_price item
          in s \<le> 100 \<and> 100 < s + t \<and> (s + t) * 0.95 < s)"
proof -
  have "0 \<le> total_price item" using total_price_le_base [OF assms] by simp
  then show ?thesis
    unfolding calculate_total_def add_item_subtotal Let_def by (rule discount_drop_iff)
qed

text \<open>C31: From every reachable order, adding an item of positive price and quantity again and again leads to reachable orders on which the 5% discount applies from some point on and for ever after.\<close>

lemma discount_eventually_applies:
  assumes "order_reachable ord" "0 < price item" "0 < quantity item"
  shows "\<exists>n. \<forall>k. order_reachable (add_items ord (replicate (n + k) item)) \<and>
               calculate_total (add_items ord (replicate (n + k) item)) =
                 sum_totals 0 (items (add_items ord (replicate (n + k) item))) * 0.95"
proof -
  define t where "t = total_price item"
  define s where "s = sum_list (map total_price (items ord))"
  have t: "0 < t" using assms(2,3) total_price_pos by (simp add: t_def)
  have s: "0 \<le> s"
    using sum_list_total_price_bounds [OF order_reachable_valid [OF assms(1)]] by (simp add: s_def)
  have valid: "valid_item item" using assms(2,3) by (simp add: valid_item_def)
  define n where "n = nat \<lceil>100 / t\<rceil> + 1"
  have disc: "order_reachable (add_items ord (replicate m item)) \<and>
        calculate_total (add_items ord (replicate m item)) =
          sum_totals 0 (items (add_items ord (replicate m item))) * 0.95" if "n \<le> m" for m
  proof
    show "order_reachable (add_items ord (replicate m item))"
      using order_reachable_add_items [OF assms(1)] valid by simp
  next
    have "100 / t < of_nat n" unfolding n_def by linarith
    also have "\<dots> \<le> of_nat m" using that by simp
    finally have "100 < of_nat m * t" using t by (simp add: field_simps)
    then have "100 < s + of_nat m * t" using s by linarith
    then show "calculate_total (add_items ord (replicate m item)) =
          sum_totals 0 (items (add_items ord (replicate m item))) * 0.95"
      by (simp add: calculate_total_def sum_totals_eq items_add_items sum_list_replicate s_def t_def)
  qed
  show ?thesis
    by (intro exI [of _ n] allI) (rule disc, simp)
qed

lemma main_order_total: "calculate_total main_order = 40.17"
  by (simp add: calculate_total_eq main_order_def order_init_def items_add_items
                add_item_def menu_item_total_price_def Let_def)

lemma demo_order_total: "calculate_total demo_order = 152.38"
  by (simp add: calculate_total_eq demo_order_def order_init_def items_add_items
                add_item_def menu_item_total_price_def Let_def)

subsection \<open>Witnesses\<close>

lemma main_order_reachable: "order_reachable main_order"
  unfolding main_order_def
  by (rule order_reachable_add_items [OF order_reachable.init]) (simp add: valid_item_def)

lemma calculate_total_bounds_witness:
  "order_reachable main_order \<and> 0 \<le> calculate_total main_order \<and>
   calculate_total main_order \<le> sum_list (map menu_item_total_price (items main_order))"
  using calculate_total_bounds [OF main_order_reachable] main_order_reachable by simp

lemma discount_eventually_applies_witness:
  "0 < price (Beverage ''Water'' 1 1 False) \<and> 0 < quantity (Beverage ''Water'' 1 1 False) \<and>
   (\<exists>n. \<forall>k. order_reachable (add_items order_init (replicate (n + k) (Beverage ''Water'' 1 1 False))) \<and>
               calculate_total (add_items order_init (replicate (n + k) (Beverage ''Water'' 1 1 False))) =
                 sum_totals 0 (items (add_items order_init (replicate (n + k) (Beverage ''Water'' 1 1 False)))) * 0.95)"
  using discount_eventually_applies [OF order_reachable.init, of "Beverage ''Water'' 1 1 False"] by simp

lemma calculate_total_drop_iff_witness:
  "valid_item (Appetizer ''Bread'' 1 1 False) \<and>
   calculate_total (add_item (add_item order_init (MainCourse ''Steak'' 100 1 False))
                             (Appetizer ''Bread'' 1 1 False))
   < calculate_total (add_item order_init (MainCourse ''Steak'' 100 1 False))"
proof -
  have v: "valid_item (Appetizer ''Bread'' 1 1 False)" by (simp add: valid_item_def)
  show ?thesis
    using calculate_total_drop_iff [OF v, of "add_item order_init (MainCourse ''Steak'' 100 1 False)"] v
    by (simp add: add_item_def order_init_def menu_item_total_price_def)
qed

end
