(* ===== verification/PyFormat.thy ===== *)
theory PyFormat
  imports Prelude
begin

text \<open>
  The two pieces of Python's built-in formatting that the sources use:
  \<open>str(int)\<close> (\<open>py_str_int\<close>, used by \<open>f"x{quantity}"\<close>) and the format
  specification \<open>.2f\<close> of a float (\<open>py_format_2f\<close>, used by every price and total
  of \<open>src/RestaurantScenario.py\<close>). CPython formats the exact value of the float:
  rounded to two decimals, ties to even, with a leading minus sign for a negative value
  (also when it rounds to \<open>0.00\<close>). On the model's exact reals this is
  \<open>round_half_even\<close> of a hundred times the value. The parsers \<open>parse_nat\<close>,
  \<open>parse_int\<close> and \<open>parse_fixed2\<close> are the readings of these strings as numbers;
  they specify what the printed text means, through round-trip lemmas.
\<close>

definition digit_char :: "nat \<Rightarrow> char" where
  "digit_char d = ''0123456789'' ! d"

fun py_digits :: "nat \<Rightarrow> string" where
  "py_digits n =
     (if n < 10 then [digit_char n] else py_digits (n div 10) @ [digit_char (n mod 10)])"

definition py_str_int :: "py_int \<Rightarrow> string" where
  "py_str_int i = (if i < 0 then CHR ''-'' # py_digits (nat (- i)) else py_digits (nat i))"

definition round_half_even :: "real \<Rightarrow> int" where
  "round_half_even y =
     (let f = \<lfloor>y\<rfloor>; d = y - of_int f
      in if d < 1 / 2 then f else if 1 / 2 < d then f + 1 else if even f then f else f + 1)"

definition py_format_2f :: "py_float \<Rightarrow> string" where
  "py_format_2f x =
     (let c = nat (round_half_even (\<bar>x\<bar> * 100))
      in (if x < 0 then ''-'' else []) @ py_digits (c div 100) @ ''.'' @
         [digit_char (c mod 100 div 10), digit_char (c mod 10)])"

subsection \<open>Reading the printed text back\<close>

definition digit_value :: "char \<Rightarrow> nat option" where
  "digit_value c = (let n = of_char c in if 48 \<le> n \<and> n \<le> 57 then Some (n - 48) else None)"

fun digits_value :: "nat \<Rightarrow> string \<Rightarrow> nat option" where
  "digits_value acc [] = Some acc"
| "digits_value acc (c # cs) =
     (case digit_value c of None \<Rightarrow> None | Some d \<Rightarrow> digits_value (10 * acc + d) cs)"

definition parse_nat :: "string \<Rightarrow> nat option" where
  "parse_nat s = (if s = [] then None else digits_value 0 s)"

definition parse_int :: "string \<Rightarrow> int option" where
  "parse_int s =
     (case s of c # t \<Rightarrow> if c = CHR ''-'' then map_option (\<lambda>n. - int n) (parse_nat t)
                        else map_option int (parse_nat s)
              | [] \<Rightarrow> None)"

definition parse_fixed2 :: "string \<Rightarrow> int option" where
  "parse_fixed2 s =
     (let neg = (s \<noteq> [] \<and> hd s = CHR ''-'');
          t = (if neg then tl s else s);
          n = length t
      in if n < 4 \<or> t ! (n - 3) \<noteq> CHR ''.'' then None
         else case (parse_nat (take (n - 3) t), parse_nat (drop (n - 2) t)) of
                (Some a, Some b) \<Rightarrow> Some ((if neg then -1 else 1) * int (100 * a + b))
              | _ \<Rightarrow> None)"

definition is_digit :: "char \<Rightarrow> bool" where
  "is_digit c \<longleftrightarrow> digit_value c \<noteq> None"

text \<open>A well-formed \<open>.2f\<close> literal: an optional minus sign, a non-empty integer part
  without leading zero, a point and exactly two digits.\<close>

definition fixed2_literal :: "string \<Rightarrow> bool" where
  "fixed2_literal s \<longleftrightarrow>
     (let t = (if s \<noteq> [] \<and> hd s = CHR ''-'' then tl s else s); n = length t
      in 4 \<le> n \<and> t ! (n - 3) = CHR ''.'' \<and>
         list_all is_digit (take (n - 3) t) \<and> list_all is_digit (drop (n - 2) t) \<and>
         (case take (n - 3) t of c # _ # _ \<Rightarrow> c \<noteq> CHR ''0'' | _ \<Rightarrow> True))"

section \<open>Properties of the formatting functions\<close>

declare py_digits.simps [simp del]

lemma digit_cases:
  "d < 10 \<Longrightarrow> d = 0 \<or> d = 1 \<or> d = 2 \<or> d = 3 \<or> d = 4 \<or> d = 5 \<or> d = 6 \<or> d = 7 \<or> d = 8 \<or> (d::nat) = 9"
  by arith

lemma digit_value_digit_char [simp]: "d < 10 \<Longrightarrow> digit_value (digit_char d) = Some d"
  by (drule digit_cases) (auto simp: digit_char_def digit_value_def)

lemma digit_char_not_minus [simp]: "d < 10 \<Longrightarrow> digit_char d \<noteq> CHR ''-''"
  by (drule digit_cases) (auto simp: digit_char_def)

lemma digit_char_not_point [simp]: "d < 10 \<Longrightarrow> digit_char d \<noteq> CHR ''.''"
  by (drule digit_cases) (auto simp: digit_char_def)

lemma digit_char_eq_0_iff [simp]: "d < 10 \<Longrightarrow> digit_char d = CHR ''0'' \<longleftrightarrow> d = 0"
  by (drule digit_cases) (auto simp: digit_char_def)

lemma is_digit_digit_char [simp]: "d < 10 \<Longrightarrow> is_digit (digit_char d)"
  by (simp add: is_digit_def)

lemma digits_value_append:
  "digits_value acc (xs @ ys) =
     (case digits_value acc xs of None \<Rightarrow> None | Some a \<Rightarrow> digits_value a ys)"
  by (induction acc xs rule: digits_value.induct) (simp_all split: option.split)

lemma py_digits_value: "digits_value 0 (py_digits n) = Some n"
proof (induction n rule: py_digits.induct)
  case (1 n)
  show ?case
  proof (cases "n < 10")
    case True
    then show ?thesis by (simp add: py_digits.simps [of n])
  next
    case False
    with "1.IH" have "digits_value 0 (py_digits (n div 10)) = Some (n div 10)" by simp
    with False show ?thesis by (simp add: py_digits.simps [of n] digits_value_append)
  qed
qed

lemma py_digits_ne [simp]: "py_digits n \<noteq> []"
  by (subst py_digits.simps) simp

lemma py_digits_all_digits: "list_all is_digit (py_digits n)"
  by (induction n rule: py_digits.induct) (subst py_digits.simps, simp)

lemma hd_py_digits: "\<exists>d < 10. hd (py_digits n) = digit_char d \<and> (d = 0 \<longrightarrow> n = 0)"
proof (induction n rule: py_digits.induct)
  case (1 n)
  show ?case
  proof (cases "n < 10")
    case True
    then show ?thesis by (auto simp: py_digits.simps [of n])
  next
    case False
    with "1.IH" obtain d where "d < 10" "hd (py_digits (n div 10)) = digit_char d" "d = 0 \<longrightarrow> n div 10 = 0"
      by auto
    with False show ?thesis by (auto simp: py_digits.simps [of n])
  qed
qed

lemma parse_nat_py_digits [simp]: "parse_nat (py_digits n) = Some n"
  by (simp add: parse_nat_def py_digits_value)

lemma hd_py_digits_not_minus: "hd (py_digits n) \<noteq> CHR ''-''"
  using hd_py_digits [of n] by (metis digit_char_not_minus)

lemma cents_decompose: "100 * (c div 100) + (10 * (c mod 100 div 10) + c mod 10) = (c::nat)"
proof -
  have a: "c = 100 * (c div 100) + c mod 100" by simp
  have b: "c mod 100 = 10 * (c mod 100 div 10) + c mod 100 mod 10" by simp
  have m: "c mod 100 mod 10 = c mod 10" by (rule mod_mod_cancel) simp
  from a b m show ?thesis by linarith
qed


lemma py_str_int_roundtrip: "parse_int (py_str_int i) = Some i"
proof (cases "i < 0")
  case True
  then show ?thesis by (simp add: py_str_int_def parse_int_def)
next
  case False
  obtain c t where ct: "py_digits (nat i) = c # t"
    using py_digits_ne by (metis list.exhaust)
  moreover have "c \<noteq> CHR ''-''"
    using hd_py_digits_not_minus [of "nat i"] ct by simp
  ultimately show ?thesis
    using False parse_nat_py_digits [of "nat i"] by (simp add: py_str_int_def parse_int_def)
qed

lemma round_half_even_bound: "\<bar>of_int (round_half_even y) - y\<bar> \<le> 1 / 2"
proof -
  have "of_int \<lfloor>y\<rfloor> \<le> y" "y < of_int \<lfloor>y\<rfloor> + 1" by linarith+
  then show ?thesis by (auto simp: round_half_even_def Let_def)
qed

lemma round_half_even_nonneg: "0 \<le> y \<Longrightarrow> 0 \<le> round_half_even y"
  by (simp add: round_half_even_def Let_def)

text \<open>The text after the optional sign, for a non-negative number of cents.\<close>

definition fixed2_body :: "nat \<Rightarrow> string" where
  "fixed2_body c = py_digits (c div 100) @ ''.'' @ [digit_char (c mod 100 div 10), digit_char (c mod 10)]"

lemma py_format_2f_body:
  "py_format_2f x = (if x < 0 then ''-'' else []) @ fixed2_body (nat (round_half_even (\<bar>x\<bar> * 100)))"
  by (simp add: py_format_2f_def fixed2_body_def Let_def)

lemma fixed2_body_parts:
  "length (fixed2_body c) = length (py_digits (c div 100)) + 3"
  "take (length (fixed2_body c) - 3) (fixed2_body c) = py_digits (c div 100)"
  "drop (length (fixed2_body c) - 2) (fixed2_body c) = [digit_char (c mod 100 div 10), digit_char (c mod 10)]"
  "fixed2_body c ! (length (fixed2_body c) - 3) = CHR ''.''"
  "fixed2_body c \<noteq> [] \<and> hd (fixed2_body c) \<noteq> CHR ''-''"
  by (simp_all add: fixed2_body_def nth_append hd_append hd_py_digits_not_minus)

lemma parse_fixed2_body: "parse_fixed2 (fixed2_body c) = Some (int c)"
proof -
  have "parse_nat [digit_char (c mod 100 div 10), digit_char (c mod 10)] = Some (10 * (c mod 100 div 10) + c mod 10)"
    by (simp add: parse_nat_def)
  moreover note cents_decompose [of c]
  ultimately show ?thesis
    using fixed2_body_parts [of c] by (simp add: parse_fixed2_def Let_def)
qed

lemma parse_fixed2_minus_body: "parse_fixed2 (CHR ''-'' # fixed2_body c) = Some (- int c)"
proof -
  have "parse_nat [digit_char (c mod 100 div 10), digit_char (c mod 10)] = Some (10 * (c mod 100 div 10) + c mod 10)"
    by (simp add: parse_nat_def)
  moreover note cents_decompose [of c]
  ultimately show ?thesis
    using fixed2_body_parts [of c] by (simp add: parse_fixed2_def Let_def)
qed

lemma parse_signed_body:
  "0 \<le> r \<Longrightarrow> parse_fixed2 ((if neg then ''-'' else []) @ fixed2_body (nat r)) = Some ((if neg then -1 else 1) * r)"
  by (simp add: parse_fixed2_body parse_fixed2_minus_body)


lemma py_format_2f_roundtrip:
  "parse_fixed2 (py_format_2f x) = Some ((if x < 0 then -1 else 1) * round_half_even (\<bar>x\<bar> * 100))"
  unfolding py_format_2f_body by (rule parse_signed_body [OF round_half_even_nonneg]) simp

lemma py_digits_no_leading_zero:
  "case py_digits q of a # _ # _ \<Rightarrow> a \<noteq> CHR ''0'' | _ \<Rightarrow> True"
proof (cases "q < 10")
  case True
  then show ?thesis by (simp add: py_digits.simps [of q])
next
  case False
  obtain d where d: "d < 10" "hd (py_digits q) = digit_char d" "d = 0 \<longrightarrow> q = 0"
    using hd_py_digits [of q] by blast
  with False have "hd (py_digits q) \<noteq> CHR ''0''" by simp
  then show ?thesis by (auto split: list.split)
qed

lemma fixed2_literal_body:
  "fixed2_literal (fixed2_body c) \<and> fixed2_literal (CHR ''-'' # fixed2_body c)"
proof -
  have digits: "list_all is_digit [digit_char (c mod 100 div 10), digit_char (c mod 10)]"
    by simp
  have "0 < length (py_digits (c div 100))" by simp
  then have "4 \<le> length (fixed2_body c)"
    by (simp add: fixed2_body_parts(1) Suc_le_eq)
  then show ?thesis
    using fixed2_body_parts [of c] digits py_digits_all_digits [of "c div 100"]
          py_digits_no_leading_zero [of "c div 100"]
    by (simp add: fixed2_literal_def Let_def)
qed


lemma py_format_2f_literal: "fixed2_literal (py_format_2f x)"
  using fixed2_literal_body by (simp add: py_format_2f_body)

lemma scaled_error_bound: "\<bar>a - 100 * y\<bar> \<le> 1 / 2 \<Longrightarrow> \<bar>a / 100 - y\<bar> \<le> (1 / 200 :: real)"
proof -
  assume h: "\<bar>a - 100 * y\<bar> \<le> 1 / 2"
  have "\<bar>a / 100 - y\<bar> = \<bar>(a - 100 * y) / 100\<bar>"
    by (rule arg_cong [where f = abs]) (simp add: field_simps)
  also have "\<dots> = \<bar>a - 100 * y\<bar> / 100"
    by (simp only: abs_divide abs_numeral)
  also have "\<dots> \<le> (1 / 2) / 100"
    using h by (intro divide_right_mono) simp_all
  finally show ?thesis by simp
qed

lemma py_format_2f_half_cent:
  "\<exists>c. parse_fixed2 (py_format_2f x) = Some c \<and> \<bar>of_int c / 100 - x\<bar> \<le> 1 / 200"
proof -
  obtain r where r: "round_half_even (\<bar>x\<bar> * 100) = r" by blast
  have b: "\<bar>of_int r - \<bar>x\<bar> * 100\<bar> \<le> 1 / 2"
    using round_half_even_bound [of "\<bar>x\<bar> * 100"] unfolding r .
  have "\<bar>of_int ((if x < 0 then -1 else 1) * r) - 100 * x\<bar> = \<bar>of_int r - \<bar>x\<bar> * 100\<bar>"
    by (cases "x < 0") (simp_all add: abs_minus_commute algebra_simps)
  with b have "\<bar>of_int ((if x < 0 then -1 else 1) * r) / 100 - x\<bar> \<le> 1 / 200"
    by (intro scaled_error_bound) simp
  moreover have "parse_fixed2 (py_format_2f x) = Some ((if x < 0 then -1 else 1) * r)"
  proof -
    have "0 \<le> r" using round_half_even_nonneg [of "\<bar>x\<bar> * 100"] r by simp
    then show ?thesis unfolding py_format_2f_body r by (rule parse_signed_body)
  qed
  ultimately show ?thesis by auto
qed

lemma round_half_even_int [simp]: "round_half_even (of_int k) = k"
  by (simp add: round_half_even_def)

text \<open>Evaluation rule: a non-negative amount with a whole number of cents.\<close>

lemma py_format_2f_exact_cents:
  "0 \<le> x \<Longrightarrow> x * 100 = of_int \<lfloor>x * 100\<rfloor> \<Longrightarrow> py_format_2f x = fixed2_body (nat \<lfloor>x * 100\<rfloor>)"
proof -
  assume "0 \<le> x" and c: "x * 100 = of_int \<lfloor>x * 100\<rfloor>"
  then have "round_half_even (\<bar>x\<bar> * 100) = \<lfloor>x * 100\<rfloor>"
    by (metis abs_of_nonneg round_half_even_int)
  with \<open>0 \<le> x\<close> show ?thesis by (simp add: py_format_2f_body)
qed

end
