(* ===== verification/Receipts.thy ===== *)
theory Receipts
  imports Orders PyFormat
begin

text \<open>
  The printed side of \<open>src/RestaurantScenario.py\<close>: the \<open>__repr__\<close> methods of the
  item classes (\<open>menu_item_repr\<close>, which \<open>print(item)\<close> uses, as the classes define
  no \<open>__str__\<close>), \<open>Order.show_order\<close> (\<open>show_order\<close>) and the output of the
  whole script (\<open>script_output\<close>). Standard output is the list of printed lines;
  \<open>print\<close> appends one line per call.
\<close>

fun menu_item_repr :: "menu_item \<Rightarrow> string" where
  "menu_item_repr (MenuItem n p q) =
     n @ '' x'' @ py_str_int q @ '' - $'' @ py_format_2f (total_price (MenuItem n p q))"
| "menu_item_repr (Beverage n p q alc) =
     ''Beverage: '' @ n @ (if alc then '' (Alcoholic)'' else '''') @ '' x'' @ py_str_int q @
     '' - $'' @ py_format_2f (total_price (Beverage n p q alc))"
| "menu_item_repr (Appetizer n p q s) =
     ''Appetizer: '' @ n @ (if s then '' with sauce'' else '''') @ '' x'' @ py_str_int q @
     '' - $'' @ py_format_2f (total_price (Appetizer n p q s))"
| "menu_item_repr (MainCourse n p q veg) =
     ''Main Course: '' @ n @ (if veg then '' (Vegetarian)'' else '''') @ '' x'' @ py_str_int q @
     '' - $'' @ py_format_2f (total_price (MainCourse n p q veg))"

definition show_order :: "order \<Rightarrow> string list" where
  "show_order ord =
     [''Order Summary:''] @ map menu_item_repr (items ord) @
     [''Total: $'' @ py_format_2f (calculate_total ord)]"

text \<open>Running the file: the module-level order is printed on import and as a script;
  the \<open>__main__\<close> block adds the second order.\<close>

definition script_output :: "bool \<Rightarrow> string list" where
  "script_output is_main =
     show_order demo_order @ (if is_main then show_order main_order else [])"

text \<open>The output the comment at the end of the file expects (lines 110--118).\<close>

definition expected_main_output :: "string list" where
  "expected_main_output =
     [''Order Summary:'',
      ''Main Course: Grilled Chicken x1 - $15.00'',
      ''Main Course: Vegetarian Lasagna (Vegetarian) x1 - $8.67'',
      ''Appetizer: Spring Rolls with sauce x1 - $5.00'',
      ''Beverage: Coca-Cola x1 - $2.50'',
      ''Beverage: Red Wine (Alcoholic) x1 - $9.00'',
      ''Total: $40.17'']"

section \<open>Properties of the printed output\<close>

lemma py_digits_eval [simp]:
  "py_digits n = (if n < 10 then [digit_char n] else py_digits (n div 10) @ [digit_char (n mod 10)])"
  by (rule py_digits.simps)

lemma items_main_order:
  "items main_order =
     [MainCourse ''Grilled Chicken'' 15.00 1 False,
      MainCourse ''Vegetarian Lasagna'' 10.20 1 True,
      Appetizer ''Spring Rolls'' 5.00 1 True,
      Beverage ''Coca-Cola'' 2.50 1 False,
      Beverage ''Red Wine'' 9.00 1 True]"
  unfolding main_order_def items_add_items by (simp add: order_init_def)

lemmas receipt_eval =
  show_order_def py_format_2f_exact_cents fixed2_body_def py_str_int_def digit_char_def
  menu_item_total_price_def

text \<open>Example: show_order on the order of the __main__ block prints exactly the seven lines that the comment at the end of the script expects.\<close>

lemma main_order_output: "show_order main_order = expected_main_output"
  by (simp add: receipt_eval main_order_total items_main_order expected_main_output_def)

lemma items_demo_order:
  "items demo_order =
     [Beverage ''Coca-Cola'' 2.5 3 False,
      Beverage ''Red Wine'' 10.0 6 True,
      Appetizer ''Spring Rolls'' 5.0 2 True,
      Appetizer ''Garlic Bread'' 4.0 1 False,
      MainCourse ''Grilled Chicken'' 15.0 1 False,
      MainCourse ''Vegetarian Lasagna'' 12.0 2 True,
      MainCourse ''Steak'' 22.0 1 False,
      Beverage ''Orange Juice'' 3.5 2 False,
      Appetizer ''Stuffed Mushrooms'' 6.5 1 False,
      MainCourse ''Fish and Chips'' 14.0 1 False]"
  unfolding demo_order_def items_add_items by (simp add: order_init_def)

text \<open>Example: Running the file as a script prints the module-level order's summary (total 152.38) before the seven expected lines of the __main__ order.\<close>

lemma script_output_main:
  "script_output True =
     [''Order Summary:'',
      ''Beverage: Coca-Cola x3 - $7.50'',
      ''Beverage: Red Wine (Alcoholic) x6 - $54.00'',
      ''Appetizer: Spring Rolls with sauce x2 - $10.00'',
      ''Appetizer: Garlic Bread x1 - $4.00'',
      ''Main Course: Grilled Chicken x1 - $15.00'',
      ''Main Course: Vegetarian Lasagna (Vegetarian) x2 - $20.40'',
      ''Main Course: Steak x1 - $22.00'',
      ''Beverage: Orange Juice x2 - $7.00'',
      ''Appetizer: Stuffed Mushrooms x1 - $6.50'',
      ''Main Course: Fish and Chips x1 - $14.00'',
      ''Total: $152.38'',
      ''Order Summary:'',
      ''Main Course: Grilled Chicken x1 - $15.00'',
      ''Main Course: Vegetarian Lasagna (Vegetarian) x1 - $8.67'',
      ''Appetizer: Spring Rolls with sauce x1 - $5.00'',
      ''Beverage: Coca-Cola x1 - $2.50'',
      ''Beverage: Red Wine (Alcoholic) x1 - $9.00'',
      ''Total: $40.17'']"
  by (simp add: script_output_def receipt_eval main_order_total demo_order_total
                items_main_order items_demo_order)

text \<open>C14: The total line of show_order reads back to within half a cent of the order's total.\<close>

lemma receipt_total_half_cent:
  "\<exists>c. parse_fixed2 (drop 8 (last (show_order ord))) = Some c \<and>
       \<bar>of_int c / 100 - calculate_total ord\<bar> \<le> 1 / 200"
  using py_format_2f_half_cent [of "calculate_total ord"] by (simp add: show_order_def)

text \<open>Example: The printed amounts use round-half-to-even: two items of 0.125 each print as 0.12 while the printed total is 0.25, so the receipt's lines do not add up.\<close>

lemma receipt_items_do_not_add_up:
  "show_order (add_items order_init [Appetizer ''Mints'' 0.125 1 False, Appetizer ''Mints'' 0.125 1 False]) =
     [''Order Summary:'', ''Appetizer: Mints x1 - $0.12'', ''Appetizer: Mints x1 - $0.12'', ''Total: $0.25'']"
  by (simp add: receipt_eval calculate_total_eq add_item_def order_init_def py_format_2f_body
                round_half_even_def)

lemma menu_item_repr_split:
  "\<exists>pre. menu_item_repr item =
     pre @ '' x'' @ py_str_int (quantity item) @ '' - $'' @ py_format_2f (total_price item)"
  by (cases item) auto

text \<open>C12: Every item line printed by __repr__ splits into a prefix, a quantity text that reads back to the item's quantity, and an amount text that reads back to the item's total_price rounded to cents.\<close>

lemma menu_item_repr_reads_back:
  "\<exists>pre qt pt. menu_item_repr item = pre @ '' x'' @ qt @ '' - $'' @ pt \<and>
     parse_int qt = Some (quantity item) \<and>
     parse_fixed2 pt = Some ((if total_price item < 0 then -1 else 1) * round_half_even (\<bar>total_price item\<bar> * 100))"
  using menu_item_repr_split [of item] py_str_int_roundtrip [of "quantity item"]
        py_format_2f_roundtrip [of "total_price item"]
  by blast

text \<open>C13: Every line show_order prints after the header ends in a dollar sign followed by a well-formed .2f literal (optional minus, integer part without leading zeros, point, two digits).\<close>

lemma show_order_amounts_well_formed:
  "\<forall>line \<in> set (tl (show_order ord)). \<exists>pre pt. line = pre @ ''$'' @ pt \<and> fixed2_literal pt"
proof
  fix line
  assume "line \<in> set (tl (show_order ord))"
  then consider (item) item where "item \<in> set (items ord)" "line = menu_item_repr item"
    | (total) "line = ''Total: $'' @ py_format_2f (calculate_total ord)"
    by (auto simp: show_order_def)
  then show "\<exists>pre pt. line = pre @ ''$'' @ pt \<and> fixed2_literal pt"
  proof cases
    case item
    then obtain pre where "line = (pre @ '' x'' @ py_str_int (quantity item) @ '' - '') @ ''$'' @
                                   py_format_2f (total_price item)"
      using menu_item_repr_split [of item] by auto
    then show ?thesis using py_format_2f_literal by blast
  next
    case total
    then have "line = ''Total: '' @ ''$'' @ py_format_2f (calculate_total ord)" by simp
    then show ?thesis using py_format_2f_literal by blast
  qed
qed

lemma show_order_amounts_well_formed_witness:
  "''Total: $40.17'' \<in> set (tl (show_order main_order)) \<and>
   (\<exists>pre pt. ''Total: $40.17'' = pre @ ''$'' @ pt \<and> fixed2_literal pt)"
proof -
  have h: "''Total: $40.17'' \<in> set (tl (show_order main_order))"
    by (simp add: receipt_eval main_order_total items_main_order)
  show ?thesis using bspec [OF show_order_amounts_well_formed h] h by blast
qed

end
