(* ===== verification/GeomRepr.thy ===== *)
theory GeomRepr
  imports Squares
begin

text \<open>
  The \<open>__repr__\<close> methods of \<open>src/classLine.py\<close>. Python prints a float in an
  f-string with \<open>repr(float)\<close>, the shortest decimal text that reads back to the same
  IEEE double; that text is a property of the binary value, which the model's reals do not
  carry. The float printer is therefore a parameter \<open>fmt\<close> of every definition here,
  and the lemmas hold for any printer (or for any printer whose output has no comma, the
  only assumption the structure of the text needs). \<open>py_list_repr\<close> is Python's
  \<open>repr\<close> of a list (\<open>py_join\<close> is \<open>str.join\<close>), used for \<open>{self.lines}\<close>.
\<close>

definition point_repr :: "(py_float \<Rightarrow> string) \<Rightarrow> point \<Rightarrow> string" where
  "point_repr fmt p = ''Point('' @ fmt (px p) @ '', '' @ fmt (py p) @ '')''"

definition line_repr :: "(py_float \<Rightarrow> string) \<Rightarrow> line \<Rightarrow> string" where
  "line_repr fmt l =
     ''Line(start='' @ point_repr fmt (line_start l) @ '', end='' @ point_repr fmt (line_end l) @ '')''"

fun py_join :: "string \<Rightarrow> string list \<Rightarrow> string" where
  "py_join sep [] = []"
| "py_join sep [x] = x"
| "py_join sep (x # y # zs) = x @ sep @ py_join sep (y # zs)"

definition py_list_repr :: "('a \<Rightarrow> string) \<Rightarrow> 'a list \<Rightarrow> string" where
  "py_list_repr r xs = ''['' @ py_join '', '' (map r xs) @ '']''"

definition rectangle_repr :: "(py_float \<Rightarrow> string) \<Rightarrow> rectangle \<Rightarrow> string" where
  "rectangle_repr fmt r =
     ''Rectangle(lines='' @ py_list_repr (line_repr fmt) (lines r) @
     '', center='' @ point_repr fmt (center r) @
     '', width='' @ fmt (width r) @ '', height='' @ fmt (height r) @ '')''"

definition square_repr :: "(py_float \<Rightarrow> string) \<Rightarrow> rectangle \<Rightarrow> string" where
  "square_repr fmt r =
     ''Square(lines='' @ py_list_repr (line_repr fmt) (lines r) @
     '', center='' @ point_repr fmt (center r) @ '', side='' @ fmt (width r) @ '')''"

section \<open>Properties of the textual representation\<close>

lemma append_comma_split:
  assumes "xs @ CHR '','' # ys = xs' @ CHR '','' # ys'"
    and "CHR '','' \<notin> set xs" and "CHR '','' \<notin> set xs'"
  shows "xs = xs' \<and> ys = ys'"
  using assms
proof (induction xs arbitrary: xs')
  case Nil
  then show ?case by (cases xs') auto
next
  case (Cons x xs)
  then show ?case by (cases xs') auto
qed

text \<open>C22: For a float printer that prints no comma, equal Point reprs have equal printed coordinates: the repr can be split back into x and y.\<close>

lemma point_repr_determines_coordinates:
  assumes "\<forall>v. CHR '','' \<notin> set (fmt v)"
    and "point_repr fmt p = point_repr fmt q"
  shows "fmt (px p) = fmt (px q) \<and> fmt (py p) = fmt (py q)"
proof -
  from assms(2) have "fmt (px p) @ CHR '','' # CHR '' '' # fmt (py p) @ '')'' =
                      fmt (px q) @ CHR '','' # CHR '' '' # fmt (py q) @ '')''"
    by (simp add: point_repr_def)
  with assms(1) have "fmt (px p) = fmt (px q) \<and> CHR '' '' # fmt (py p) @ '')'' = CHR '' '' # fmt (py q) @ '')''"
    by (intro append_comma_split) auto
  then show ?thesis by simp
qed

text \<open>Example: For any float printer, the repr of Rectangle.from_corners((0,0),(4,3)) prints height=4, the width, instead of 3.\<close>

lemma rectangle_repr_example:
  "rectangle_repr fmt (rectangle_from_corners (Point 0 0) (Point 4 3)) =
     ''Rectangle(lines=[Line(start=Point('' @ fmt 0 @ '', '' @ fmt 0 @ ''), end=Point('' @ fmt 4 @ '', '' @ fmt 0 @ ''))'' @
     '', Line(start=Point('' @ fmt 4 @ '', '' @ fmt 0 @ ''), end=Point('' @ fmt 4 @ '', '' @ fmt 3 @ ''))'' @
     '', Line(start=Point('' @ fmt 0 @ '', '' @ fmt 3 @ ''), end=Point('' @ fmt 4 @ '', '' @ fmt 3 @ ''))'' @
     '', Line(start=Point('' @ fmt 0 @ '', '' @ fmt 0 @ ''), end=Point('' @ fmt 0 @ '', '' @ fmt 3 @ ''))]'' @
     '', center=Point('' @ fmt 2 @ '', '' @ fmt (3 / 2) @ ''), width='' @ fmt 4 @ '', height='' @ fmt 4 @ '')''"
  by (simp add: rectangle_repr_def py_list_repr_def line_repr_def point_repr_def geom_simps)

subsection \<open>Witnesses\<close>

lemma point_repr_determines_coordinates_witness:
  "(\<forall>v. CHR '','' \<notin> set (if v = (0::real) then ''0.0'' else ''1.0'')) \<and>
   point_repr (\<lambda>v. if v = 0 then ''0.0'' else ''1.0'') (Point 1 0) =
   point_repr (\<lambda>v. if v = 0 then ''0.0'' else ''1.0'') (Point 2 0) \<and>
   (if (1::real) = 0 then ''0.0'' else ''1.0'') = (if (2::real) = 0 then ''0.0'' else ''1.0'')"
proof -
  let ?f = "\<lambda>v::real. if v = 0 then ''0.0'' else ''1.0''"
  have h1: "\<forall>v. CHR '','' \<notin> set (?f v)" by simp
  have h2: "point_repr ?f (Point 1 0) = point_repr ?f (Point 2 0)" by (simp add: point_repr_def)
  show ?thesis using point_repr_determines_coordinates [OF h1 h2] h1 h2 by simp
qed

end
