(* ===== verification/Spec2Isabelle.thy ===== *)
theory Spec2Isabelle
  imports Squares Receipts GeomRepr
begin

text \<open>
  \<^bold>\<open>Verification of Reto-3.\<close> The repository has two Python scripts under \<open>src/\<close>:

  \<^item> \<open>src/classLine.py\<close>, the 2-D geometric primitives \<open>Point\<close>, \<open>Line\<close>,
    \<open>Rectangle\<close> and \<open>Square(Rectangle)\<close>. A rectangle is built from four lines
    (each built from two points); a square is a rectangle built from a corner and one side
    length. All attributes are computed once in the constructors; nothing is mutated
    afterwards.
  \<^item> \<open>src/RestaurantScenario.py\<close>, an order-pricing script: the item classes
    \<open>MenuItem\<close>, \<open>Beverage\<close>, \<open>Appetizer\<close>, \<open>MainCourse\<close> with per-class
    discounts, the class \<open>Order\<close> that sums them with a 5\% discount above 100, and
    two scripted orders.

  \<^bold>\<open>Theories.\<close>
  \<^item> \<open>Prelude\<close>: Python's \<open>float\<close> as \<open>real\<close> (\<open>py_float\<close>), \<open>int\<close> as
    \<open>int\<close> (\<open>py_int\<close>); exceptions as \<open>py_error + 'a\<close> with \<open>py_bind\<close>
    propagating them and \<open>py_div\<close> the float division that raises
    \<open>ZeroDivisionError\<close>; the simp collections \<open>geom_simps\<close>, \<open>order_simps\<close>;
    shared facts on \<open>sqrt\<close>, \<open>min\<close> and \<open>max\<close>.
  \<^item> \<open>Points\<close>: \<open>Point\<close> (classLine.py 3--10) as a datatype with selectors
    \<open>px\<close>, \<open>py\<close>; \<open>point_lerp\<close> is the abstract point on a segment.
  \<^item> \<open>Lines\<close>: \<open>Line\<close> (13--55) as a datatype; \<open>compute_length\<close>,
    \<open>compute_slope\<close>, \<open>compute_horizontal_cross\<close>, \<open>compute_vertical_cross\<close>,
    \<open>discretize_line\<close> are the methods of the same names, every division by a
    computed value through \<open>py_div\<close>. Lemmas: the closed form of each method on every
    branch (\<open>compute_slope_eq\<close>, \<open>compute_horizontal_cross_eq\<close>, ...), the exact
    conditions under which the crossings raise, the slope's range and direction
    independence, and the refinement of \<open>discretize_line\<close> by \<open>point_lerp\<close>
    (\<open>discretize_line_eq_lerp\<close>) from which its length, first point, spacing and
    on-segment properties follow (no lemma states the last point: see below). \<open>x_axis_intercept\<close> and \<open>y_axis_intercept\<close>
    are the crossings the spec describes (where the line through the segment meets an
    axis); \<open>horizontal_cross_agrees_iff\<close> and \<open>vertical_cross_agrees_iff\<close>
    characterise exactly when the code's results coincide with them.
  \<^item> \<open>Rectangles\<close>: \<open>Rectangle\<close> (58--105) as the record \<open>rectangle\<close> of the
    constructor's attributes; \<open>rectangle_init\<close> is \<open>__init__\<close>,
    \<open>rectangle_from_corners\<close> the class method, \<open>compute_area\<close>,
    \<open>compute_perimeter\<close>, \<open>contains_point\<close> the methods. \<open>rect_wf\<close> is the
    invariant the spec states (axis-aligned, corners and lines consistent, width and
    height the side lengths) and \<open>rect_abs\<close> the abstraction to the spanned box with
    \<open>box_area\<close>, \<open>box_perimeter\<close>, \<open>box_contains\<close>. Lemmas: the refinement
    \<open>rect_wf_refines_box\<close>, and that \<open>from_corners\<close> breaks it, since
    \<open>__init__\<close> reads the height from the top line; \<open>__init__\<close> reads
    nothing of \<open>line2\<close> and \<open>line4\<close> but stores them
    (\<open>rectangle_init_side_lines\<close>).
  \<^item> \<open>Squares\<close>: \<open>Square\<close> (108--133): \<open>square_init\<close>, \<open>square_from_center\<close>,
    \<open>square_from_corners\<close>, returning \<open>rectangle\<close> values (the subclass adds no
    attribute; its \<open>__repr__\<close> is not modelled). Lemmas: dimensions, shape, center,
    side policy, containment in the corner rectangle, negative sides.
  \<^item> \<open>MenuItems\<close>: the item classes (RestaurantScenario.py 1--53) as one datatype with a
    constructor per class; \<open>total_price\<close> dispatches as the overridden methods do and
    \<open>menu_item_total_price\<close> is the base method reached by \<open>super()\<close>;
    \<open>discount_rate\<close> is the abstract pricing rule.
  \<^item> \<open>Orders\<close>: \<open>Order\<close> (56--76) as the record \<open>order\<close>; \<open>add_item\<close> returns
    the updated order; the \<open>for\<close> loop of \<open>calculate_total\<close> is the structural
    recursion \<open>sum_totals\<close>; \<open>order_reachable\<close> (an inductive predicate) is the set
    of orders built by \<open>add_item\<close> from valid items, with the invariant proved by rule
    induction; \<open>demo_order\<close> and \<open>main_order\<close> are the scripted orders (80--91,
    99--106). Lemmas: bounds of the total on reachable orders, the exact condition under
    which adding an item lowers the total (\<open>calculate_total_drop_iff\<close>), and
    the liveness property \<open>discount_eventually_applies\<close>: repeating an item of
    positive price from any reachable order reaches, and never leaves, the discounted
    total.
  \<^item> \<open>PyFormat\<close>: the Python library formatting the sources call, \<open>str(int)\<close>
    (\<open>py_str_int\<close>) and \<open>format(x, '.2f')\<close> (\<open>py_format_2f\<close>: the exact value
    rounded to cents half to even, as CPython does); the parsers \<open>parse_int\<close> and
    \<open>parse_fixed2\<close> specify what the text means. Lemmas: the round trips, the shape of a
    \<open>.2f\<close> literal (\<open>fixed2_literal\<close>) and the half-cent error bound.
  \<^item> \<open>Receipts\<close>: the item \<open>__repr__\<close> methods (\<open>menu_item_repr\<close>),
    \<open>Order.show_order\<close> (\<open>show_order\<close>, the printed lines as a list) and the output of
    the whole script (\<open>script_output\<close>); \<open>expected_main_output\<close> is the
    text the comment at lines 110--118 expects. Lemmas: every item line reads back to
    its quantity and rounded price, every amount printed is a \<open>.2f\<close> literal, the
    total line reads back to within half a cent; evaluated examples: the \<open>__main__\<close>
    order prints exactly the expected text, the full output of a run, and two items whose
    printed amounts do not add up to the printed total.
  \<^item> \<open>GeomRepr\<close>: the \<open>__repr__\<close> methods of Point, Line, Rectangle and Square, with
    the text of a float as a parameter \<open>fmt\<close> (see below) and Python's list
    \<open>repr\<close> as \<open>py_list_repr\<close>.
  \<^item> This theory: the properties spanning Rectangle and Square, and the spec's test table
    evaluated as examples. Lemmas headed ``Example'' are such evaluations on fixed inputs:
    they document findings and are not stated as properties.

  \<^bold>\<open>Modelling choices.\<close> Floats are reals: results are exact, so rounding (for
  example whether the last point of \<open>discretize_line\<close> is bit-identical to the end
  point) is outside the model; \<open>math.atan\<close>, \<open>math.degrees\<close>
  and \<open>** 0.5\<close> are \<open>arctan\<close>, multiplication by \<open>180 / pi\<close> and \<open>sqrt\<close>.
  Points are values: the code aliases points between lines and rectangles but never
  mutates them, so value semantics is observationally the same. No loop can diverge:
  the source's loops run over finite lists or a \<open>range\<close>, and the one loop of the
  model that is not over a list, the digit loop \<open>py_digits\<close> of \<open>str(int)\<close>,
  recurses on \<open>n div 10\<close>, whose termination the \<open>fun\<close> package proves.
  Every definition is therefore a total HOL function and no fuel is needed; the loops
  of the source are structural recursions (or \<open>map\<close> over a list), whose
  termination holds by construction and is not stated as a separate property.

  \<^bold>\<open>Not modelled.\<close> The text of a float in the geometric reprs: Python prints
  \<open>repr(float)\<close>, the shortest decimal that reads back to the same IEEE double, a
  property of the binary value that exact reals do not carry, and the text also depends
  on whether a coordinate is a Python \<open>int\<close> or \<open>float\<close> (\<open>Point(0, 0)\<close>
  prints \<open>0\<close>, a computed center prints \<open>2.0\<close>), a distinction the model of
  numbers as reals erases; \<open>GeomRepr\<close> takes the printer as a parameter and proves
  what holds for every printer. The \<open>.2f\<close> prices are
  modelled on the exact real, which gives CPython's text unless the float lies within its
  rounding error of a half-cent tie (2.675 is stored below the tie and prints 2.67, the
  real prints 2.68); every amount of the two scripted orders is far from a tie, and 0.125
  is a binary float, so the lemmas on these values hold for the program as run. For the
  same reason no lemma states that the last point of \<open>discretize_line\<close> is the end
  point: the code computes \<open>start + (n - 1) * ((end - start) / (n - 1))\<close> in floats,
  which can miss it (\<open>Line((0,0),(1,0)).discretize_line(50)\<close> ends at
  \<open>x = 0.9999999999999999\<close>), though the spec requires equality.

  \<^bold>\<open>Further work.\<close> Every component is modelled; the float text of the geometric
  reprs stays a parameter. Properties that could be added: the receipt's item names read
  back (they are arbitrary strings, so only up to the first \<open>' x'\<close>).

  \<^bold>\<open>Findings.\<close> \<open>Rectangle.__init__\<close> sets the height to the length of the top line,
  so every rectangle reports height = width (\<open>from_corners_height\<close>); the spec's
  example area 12 is 16. The axis crossings divide by a slope in degrees and raise
  \<open>ZeroDivisionError\<close> on horizontal lines. The total of an order is not monotone in
  its items (\<open>calculate_total_drop_iff\<close>). The last point of \<open>discretize_line\<close>
  need not be the end point in floats. A square with a negative side is empty but has a positive area. The printed
  receipt rounds half to even, so its lines need not add up to its total, and the script
  prints the module-level order before the output its comment expects.
\<close>

section \<open>Properties spanning the components\<close>

text \<open>Example: For the corners (0,0) and (4,3) the code computes area 16 and perimeter 16 (the spec expects 12 and 14); the point (4,3) is contained and (4.01,3) is not.\<close>

lemma spec_rectangle_example:
  "compute_area (rectangle_from_corners (Point 0 0) (Point 4 3)) = 16 \<and>
   compute_perimeter (rectangle_from_corners (Point 0 0) (Point 4 3)) = 16 \<and>
   contains_point (rectangle_from_corners (Point 0 0) (Point 4 3)) (Point 4 3) \<and>
   \<not> contains_point (rectangle_from_corners (Point 0 0) (Point 4 3)) (Point 4.01 3)"
  by (simp add: compute_area_def compute_perimeter_def contains_point_def geom_simps)

text \<open>The spec's square examples, evaluated.\<close>

lemma spec_square_example:
  "contains_point (square_from_center (Point 0 0) 4) (Point 2 2) \<and>
   compute_area (square_from_center (Point 0 0) 4) = 16 \<and>
   width (square_from_corners (Point 0 0) (Point 5 2)) = 2 \<and>
   height (square_from_corners (Point 0 0) (Point 5 2)) = 2"
  by (simp add: square_from_center_def square_from_corners_def contains_point_def compute_area_def
                geom_simps)

text \<open>C28: When the corners span a square, Square.from_corners and Rectangle.from_corners build the same rectangle.\<close>

lemma square_from_corners_eq_rectangle:
  assumes "\<bar>px c1 - px c2\<bar> = \<bar>py c1 - py c2\<bar>"
  shows "square_from_corners c1 c2 = rectangle_from_corners c1 c2"
proof -
  let ?bl = "Point (min (px c1) (px c2)) (min (py c1) (py c2))"
  have "square_from_corners c1 c2 = square_init ?bl \<bar>px c1 - px c2\<bar>"
    using assms by (simp add: square_from_corners_def Let_def)
  also have "\<dots> = rectangle_from_corners ?bl
                     (Point (min (px c1) (px c2) + \<bar>px c1 - px c2\<bar>) (min (py c1) (py c2) + \<bar>px c1 - px c2\<bar>))"
    by (simp add: square_init_eq_from_corners)
  also have "\<dots> = rectangle_from_corners ?bl (Point (max (px c1) (px c2)) (max (py c1) (py c2)))"
  proof -
    have x: "min (px c1) (px c2) + \<bar>px c1 - px c2\<bar> = max (px c1) (px c2)"
      by (rule min_plus_abs_diff)
    have y: "min (py c1) (py c2) + \<bar>px c1 - px c2\<bar> = max (py c1) (py c2)"
      using assms min_plus_abs_diff [of "py c1" "py c2"] by simp
    show ?thesis by (simp only: x y)
  qed
  also have "\<dots> = rectangle_from_corners c1 c2"
    by (rule rectangle_from_corners_minmax)
  finally show ?thesis .
qed

lemma square_from_corners_eq_rectangle_witness:
  "\<bar>px (Point 0 0) - px (Point 3 3)\<bar> = \<bar>py (Point 0 0) - py (Point 3 3)\<bar> \<and>
   square_from_corners (Point 0 0) (Point 3 3) = rectangle_from_corners (Point 0 0) (Point 3 3)"
  using square_from_corners_eq_rectangle [of "Point 0 0" "Point 3 3"] by simp

end
